theory Spec2Isabelle
  imports Main "HOL-Library.Multiset"
begin

section \<open>Case presence indicator: the four component sources\<close>

text \<open>
  The repository holds four versions of the \<^verbatim>\<open>CasePresenceIndicator\<close> component.
  They share method names, so every definition carries the tag of the source it embeds:
  \<^item> \<^verbatim>\<open>p0a\<close>: src/unnamed/part_000, lines 1-896 (one record per user, settings-driven);
  \<^item> \<^verbatim>\<open>p0b\<close>: src/unnamed/part_000, lines 896-1459 (a presence map keyed by user and
    session, merged per user by \<^verbatim>\<open>updateVisibleUsers\<close>);
  \<^item> \<^verbatim>\<open>p1\<close>: src/unnamed/part_001 (one record per user, mobile grace period);
  \<^item> \<^verbatim>\<open>p2\<close>: src/unnamed/part_002 (one record per user and session, own session listed).

  Timestamps are milliseconds since the epoch (\<^verbatim>\<open>Date.getTime()\<close>), as \<^typ>\<open>int\<close>; the
  parsing of \<^verbatim>\<open>Timestamp__c\<close> by \<^verbatim>\<open>new Date(...)\<close> is outside the model.
  \<^verbatim>\<open>Date.now()\<close> and \<^verbatim>\<open>document.visibilityState === 'visible'\<close> are inputs of the
  functions that read them. Logging is left out; toasts dispatched by a handler are
  returned as a list, in dispatch order.
\<close>

subsection \<open>Wire message, settings, toasts\<close>

text \<open>The platform event payload. \<^verbatim>\<open>HasDraft__c\<close> and \<^verbatim>\<open>IsMobile__c\<close> may be absent
  (the handlers default them with \<^verbatim>\<open>|| false\<close>); the photo URL may be null.\<close>

record payload =
  CaseId__c :: string
  UserId__c :: string
  UserName__c :: string
  UserPhotoUrl__c :: "string option"
  State__c :: string
  Timestamp__c :: int
  HasDraft__c :: "bool option"
  IsMobile__c :: "bool option"
  SessionId__c :: string
  IsActive__c :: bool

text \<open>\<^verbatim>\<open>v || false\<close> for a boolean field that may be missing.\<close>

definition or_false :: "bool option \<Rightarrow> bool" where
  "or_false v = (case v of None \<Rightarrow> False | Some b \<Rightarrow> b)"

record settings =
  presenceExpirationMinutes :: int
  showJoinToasts :: bool
  showLeaveToasts :: bool
  showEditStartToasts :: bool
  showEditStopToasts :: bool

text \<open>\<^verbatim>\<open>this.settings?.flag\<close>: falsy when the settings object is missing.\<close>

definition setting :: "(settings \<Rightarrow> bool) \<Rightarrow> settings option \<Rightarrow> bool" where
  "setting flag s = (case s of None \<Rightarrow> False | Some x \<Rightarrow> flag x)"

text \<open>The four kinds of toast (\<^verbatim>\<open>showJoinToast\<close>, \<^verbatim>\<open>showLeaveToast\<close>,
  \<^verbatim>\<open>showEditingToast\<close>, \<^verbatim>\<open>showStoppedEditingToast\<close>; in the second component of
  part_000 the four messages of \<^verbatim>\<open>showCustomToast\<close>), each with the user name in its
  message.\<close>

datatype toast =
  JoinToast string
  | LeaveToast string
  | EditingToast string
  | StoppedEditingToast string

text \<open>What happens to a component between start-up and teardown, as far as the list
  of visible users is concerned: an event is delivered (with the tab visibility at that
  moment) or the expiration timer fires (with the clock reading).\<close>

datatype step = Assertion bool payload | Sweep int

subsection \<open>Arrays, maps and strings of the host language\<close>

text \<open>\<^verbatim>\<open>Array.prototype.findIndex\<close>; \<open>None\<close> is the result \<^verbatim>\<open>-1\<close>.\<close>

fun findIndex :: "('a \<Rightarrow> bool) \<Rightarrow> 'a list \<Rightarrow> nat option" where
  "findIndex P [] = None"
| "findIndex P (x # xs) = (if P x then Some 0 else map_option Suc (findIndex P xs))"

text \<open>\<^verbatim>\<open>[...xs.slice(0, i), x, ...xs.slice(i + 1)]\<close>\<close>

definition replaceAt :: "nat \<Rightarrow> 'a \<Rightarrow> 'a list \<Rightarrow> 'a list" where
  "replaceAt i x xs = take i xs @ [x] @ drop (i + 1) xs"

text \<open>\<^verbatim>\<open>xs.filter((_, j) => j !== i)\<close>\<close>

definition removeAt :: "nat \<Rightarrow> 'a list \<Rightarrow> 'a list" where
  "removeAt i xs = map snd (filter (\<lambda>(j, _). j \<noteq> i) (enumerate 0 xs))"

text \<open>A JavaScript \<^verbatim>\<open>Map\<close> as an association list in insertion order: \<^verbatim>\<open>set\<close> on a
  present key replaces the value in place, on a new key appends; \<^verbatim>\<open>delete\<close> removes the
  entry.\<close>

fun map_set :: "'k \<Rightarrow> 'v \<Rightarrow> ('k \<times> 'v) list \<Rightarrow> ('k \<times> 'v) list" where
  "map_set k v [] = [(k, v)]"
| "map_set k v ((k', v') # m) = (if k' = k then (k, v) # m else (k', v') # map_set k v m)"

definition map_delete :: "'k \<Rightarrow> ('k \<times> 'v) list \<Rightarrow> ('k \<times> 'v) list" where
  "map_delete k m = filter (\<lambda>e. fst e \<noteq> k) m"

text \<open>\<^verbatim>\<open>Array.prototype.sort\<close> with a comparator. The sort is stable; for a comparator
  that orders the elements consistently its result is the one arrangement that is
  sorted and keeps equal elements in input order, computed here by insertion, each
  element going in front of the first element it does not compare greater than.\<close>

fun insert_sorted :: "('a \<Rightarrow> 'a \<Rightarrow> int) \<Rightarrow> 'a \<Rightarrow> 'a list \<Rightarrow> 'a list" where
  "insert_sorted cmp x [] = [x]"
| "insert_sorted cmp x (y # ys) =
     (if cmp x y \<le> 0 then x # y # ys else y # insert_sorted cmp x ys)"

fun array_sort :: "('a \<Rightarrow> 'a \<Rightarrow> int) \<Rightarrow> 'a list \<Rightarrow> 'a list" where
  "array_sort cmp [] = []"
| "array_sort cmp (x # xs) = insert_sorted cmp x (array_sort cmp xs)"

text \<open>A non-negative number as a decimal string (template literals).\<close>

fun show_nat :: "nat \<Rightarrow> string" where
  "show_nat n =
     (if n < 10 then [''0123456789'' ! n]
      else show_nat (n div 10) @ [''0123456789'' ! (n mod 10)])"

text \<open>What the getters read from the host: the media query
  \<^verbatim>\<open>window.matchMedia('(max-width: 768px)').matches\<close>, \<^verbatim>\<open>String.prototype.toLowerCase\<close>,
  and the local-time \<^verbatim>\<open>getHours()\<close> and \<^verbatim>\<open>getMinutes()\<close> of a timestamp.\<close>

record host =
  narrowViewport :: bool
  toLowerCase :: "string \<Rightarrow> string"
  getHours :: "int \<Rightarrow> nat"
  getMinutes :: "int \<Rightarrow> nat"

text \<open>\<^verbatim>\<open>n.toString().padStart(2, '0')\<close>\<close>

definition pad2 :: "nat \<Rightarrow> string" where
  "pad2 n = (if n < 10 then ''0'' @ show_nat n else show_nat n)"

subsection \<open>The publish call\<close>

text \<open>The parameter object handed to the Apex method \<^verbatim>\<open>publishPresence\<close>; each source
  passes its own subset of the keys.\<close>

record publishPresence_params =
  caseId :: string
  sessionId :: "string option"
  state :: string
  hasDraft :: "bool option"
  isActive :: "bool option"
  callType :: "string option"
  isMobile :: "bool option"

text \<open>How the promise returned by \<^verbatim>\<open>publishPresence\<close> settles. A rejection is caught and
  logged by every caller.\<close>

datatype outcome = Resolved | Rejected

subsection \<open>part_000, first component: one record per user\<close>

record user_p0a =
  userId :: string
  userName :: string
  userPhotoUrl :: "string option"
  state :: string
  lastSeen :: int
  hasDraft :: bool

record component_p0a =
  visibleUsers :: "user_p0a list"
  currentUserId :: string
  recordId :: "string option"
  currentState :: "string option"
  lastPublishedDraftStatus :: bool
  hasDrafts :: bool
  isActive :: bool
  isComponentActive :: bool
  settings :: "settings option"
  presenceExpirationMs :: int

text \<open>The record built in the join-or-update branch.\<close>

definition newUser_p0a :: "payload \<Rightarrow> user_p0a" where
  "newUser_p0a p =
     \<lparr> user_p0a.userId = UserId__c p,
       user_p0a.userName = UserName__c p,
       user_p0a.userPhotoUrl = UserPhotoUrl__c p,
       user_p0a.state = State__c p,
       user_p0a.lastSeen = Timestamp__c p,
       user_p0a.hasDraft = or_false (HasDraft__c p) \<rparr>"

text \<open>\<^verbatim>\<open>handlePresenceEvent\<close> of part_000 (lines 214-284). The first argument is
  \<^verbatim>\<open>document.visibilityState === 'visible'\<close>.\<close>

definition handlePresenceEvent_p0a ::
  "bool \<Rightarrow> payload \<Rightarrow> component_p0a \<Rightarrow> component_p0a \<times> toast list" where
  "handlePresenceEvent_p0a visible p st =
    (if UserId__c p = component_p0a.currentUserId st then (st, [])
     else if Some (CaseId__c p) \<noteq> component_p0a.recordId st then (st, [])
     else
       let users = component_p0a.visibleUsers st;
           existingUserIndex = findIndex (\<lambda>u. user_p0a.userId u = UserId__c p) users
       in
       if State__c p = ''gone'' then
         (case existingUserIndex of
            Some i \<Rightarrow>
              (st\<lparr> component_p0a.visibleUsers := removeAt i users \<rparr>,
               if component_p0a.isActive st \<and> visible
                  \<and> setting showLeaveToasts (component_p0a.settings st)
               then [LeaveToast (user_p0a.userName (users ! i))] else [])
          | None \<Rightarrow> (st, []))
       else
         (let user = newUser_p0a p in
          case existingUserIndex of
            Some i \<Rightarrow>
              (let hadDraft = user_p0a.hasDraft (users ! i);
                   nowHasDraft = or_false (HasDraft__c p)
               in
               (st\<lparr> component_p0a.visibleUsers := replaceAt i user users \<rparr>,
                if component_p0a.isActive st \<and> visible then
                  (if \<not> hadDraft \<and> nowHasDraft
                      \<and> setting showEditStartToasts (component_p0a.settings st)
                   then [EditingToast (user_p0a.userName user)]
                   else if hadDraft \<and> \<not> nowHasDraft
                      \<and> setting showEditStopToasts (component_p0a.settings st)
                   then [StoppedEditingToast (user_p0a.userName user)]
                   else [])
                else []))
          | None \<Rightarrow>
              (st\<lparr> component_p0a.visibleUsers := users @ [user] \<rparr>,
               if component_p0a.isActive st \<and> visible
                  \<and> setting showJoinToasts (component_p0a.settings st)
               then [JoinToast (user_p0a.userName user)] else [])))"

text \<open>\<^verbatim>\<open>publishStateChange\<close> of part_000 (lines 360-389). The first argument is how the
  \<^verbatim>\<open>publishPresence\<close> promise settles; the result lists the calls made to
  \<^verbatim>\<open>publishPresence\<close>, each with its outcome. The guard \<^verbatim>\<open>!this.recordId\<close> holds for a missing and for
  an empty record id. The two fields are assigned before the call and are not restored
  when it is rejected.\<close>

definition publishStateChange_p0a ::
  "outcome \<Rightarrow> string \<Rightarrow> component_p0a
     \<Rightarrow> component_p0a \<times> (publishPresence_params \<times> outcome) list" where
  "publishStateChange_p0a result newState st =
    (case component_p0a.recordId st of
       None \<Rightarrow> (st, [])
     | Some rid \<Rightarrow>
        if rid = [] \<or> \<not> component_p0a.isComponentActive st then (st, [])
        else if Some newState = component_p0a.currentState st
            \<and> component_p0a.lastPublishedDraftStatus st = component_p0a.hasDrafts st
        then (st, [])
        else
          (st\<lparr> component_p0a.currentState := Some newState,
               component_p0a.lastPublishedDraftStatus := component_p0a.hasDrafts st \<rparr>,
           [(\<lparr> publishPresence_params.caseId = rid,
                publishPresence_params.sessionId = None,
                publishPresence_params.state = newState,
                publishPresence_params.hasDraft = Some (component_p0a.hasDrafts st),
                publishPresence_params.isActive = None,
                publishPresence_params.callType = Some ''heartbeat'',
                publishPresence_params.isMobile = None \<rparr>, result)]))"

text \<open>\<^verbatim>\<open>filterExpiredUsers\<close> of part_000 (lines 403-417); the argument is \<^verbatim>\<open>Date.now()\<close>.\<close>

definition retained_p0a :: "int \<Rightarrow> int \<Rightarrow> user_p0a \<Rightarrow> bool" where
  "retained_p0a expirationMs now user =
     (let age = now - user_p0a.lastSeen user in age < expirationMs)"

definition filterExpiredUsers_p0a :: "int \<Rightarrow> component_p0a \<Rightarrow> component_p0a" where
  "filterExpiredUsers_p0a now st =
     st\<lparr> component_p0a.visibleUsers :=
           filter (retained_p0a (component_p0a.presenceExpirationMs st) now)
             (component_p0a.visibleUsers st) \<rparr>"

text \<open>Events delivered one after the other, each with the tab visibility at its
  delivery; the toasts are collected in order.\<close>

fun deliver_p0a :: "(bool \<times> payload) list \<Rightarrow> component_p0a \<Rightarrow> component_p0a \<times> toast list" where
  "deliver_p0a [] st = (st, [])"
| "deliver_p0a ((visible, p) # evs) st =
     (let (st', ts) = handlePresenceEvent_p0a visible p st;
          (st'', ts') = deliver_p0a evs st'
      in (st'', ts @ ts'))"

text \<open>The two bookkeeping fields agree with the last call handed to
  \<^verbatim>\<open>publishPresence\<close> in a trace of calls, whatever its outcome.\<close>

definition recorded_p0a :: "component_p0a \<Rightarrow> (publishPresence_params \<times> outcome) list \<Rightarrow> bool" where
  "recorded_p0a st trace =
     (trace \<noteq> [] \<longrightarrow>
        component_p0a.currentState st = Some (publishPresence_params.state (fst (last trace)))
        \<and> publishPresence_params.hasDraft (fst (last trace))
            = Some (component_p0a.lastPublishedDraftStatus st))"

text \<open>A run of the two operations that change \<^verbatim>\<open>visibleUsers\<close> after start-up: the
  delivery of an event and a tick of the expiration timer.\<close>

fun run_p0a :: "step list \<Rightarrow> component_p0a \<Rightarrow> component_p0a" where
  "run_p0a [] st = st"
| "run_p0a (Assertion visible p # steps) st =
     run_p0a steps (fst (handlePresenceEvent_p0a visible p st))"
| "run_p0a (Sweep now # steps) st = run_p0a steps (filterExpiredUsers_p0a now st)"

subsection \<open>part_000, second component: presence map merged per user\<close>

text \<open>A value of \<^verbatim>\<open>presenceMap\<close>, one per user and session. \<^verbatim>\<open>isDrafting\<close> is absent
  (falsy) until \<^verbatim>\<open>checkForDrafts\<close> sets it.\<close>

record presence_p0b =
  userId :: string
  sessionId :: string
  userName :: string
  userPhotoUrl :: "string option"
  state :: string
  isActive :: bool
  timestamp :: int
  isEditing :: bool
  isDrafting :: bool

text \<open>An element of \<^verbatim>\<open>visibleUsers\<close>, one per user.\<close>

record visible_p0b =
  userId :: string
  userName :: string
  userPhotoUrl :: "string option"
  isActive :: bool
  isEditing :: bool
  timestamp :: int
  style :: string
  timeAgo :: string

text \<open>An element of the result of the Apex method \<^verbatim>\<open>getRecentDrafts\<close>.\<close>

record draft_p0b =
  userId :: string
  userName :: string
  userPhotoUrl :: "string option"

record component_p0b =
  presenceMap :: "(string \<times> presence_p0b) list"
  visibleUsers :: "visible_p0b list"
  sessionId :: string
  currentUserId :: string
  recordId :: "string option"
  settings :: settings
  isMobile :: bool

text \<open>\<^verbatim>\<open>getUserStyle\<close> (lines 1414-1418), on the two fields it reads.\<close>

definition getUserStyle :: "bool \<Rightarrow> bool \<Rightarrow> string" where
  "getUserStyle active editing =
     ''opacity: '' @ (if active then ''1'' else ''0.5'')
       @ ''; border: '' @ (if editing then ''2px solid #0176d3'' else ''none'')
       @ ''; border-radius: 50%;''"

text \<open>\<^verbatim>\<open>getTimeAgo\<close> (lines 1420-1433), on the timestamp; the first argument is the clock
  reading of \<^verbatim>\<open>new Date()\<close>. \<^verbatim>\<open>Math.floor\<close> of the quotient is \<open>div\<close> on \<^typ>\<open>int\<close>.\<close>

definition getTimeAgo :: "int \<Rightarrow> int \<Rightarrow> string" where
  "getTimeAgo now ts =
     (let diff = now - ts;
          minutes = diff div 60000
      in if minutes < 1 then ''Active now''
         else if minutes < 60 then show_nat (nat minutes) @ ''m ago''
         else (let hours = minutes div 60 in show_nat (nat hours) @ ''h ago''))"

text \<open>The two branches of the loop body of \<^verbatim>\<open>updateVisibleUsers\<close>: the entry for a user
  seen for the first time, and the merge of a further session into the user's entry.\<close>

definition firstSession_p0b :: "int \<Rightarrow> presence_p0b \<Rightarrow> visible_p0b" where
  "firstSession_p0b now presence =
     \<lparr> visible_p0b.userId = presence_p0b.userId presence,
       visible_p0b.userName = presence_p0b.userName presence,
       visible_p0b.userPhotoUrl = presence_p0b.userPhotoUrl presence,
       visible_p0b.isActive = presence_p0b.isActive presence,
       visible_p0b.isEditing = presence_p0b.isEditing presence,
       visible_p0b.timestamp = presence_p0b.timestamp presence,
       visible_p0b.style =
         getUserStyle (presence_p0b.isActive presence) (presence_p0b.isEditing presence),
       visible_p0b.timeAgo = getTimeAgo now (presence_p0b.timestamp presence) \<rparr>"

definition mergeSession_p0b :: "int \<Rightarrow> visible_p0b \<Rightarrow> presence_p0b \<Rightarrow> visible_p0b" where
  "mergeSession_p0b now existingUser presence =
     (let active = visible_p0b.isActive existingUser \<or> presence_p0b.isActive presence;
          editing = visible_p0b.isEditing existingUser \<or> presence_p0b.isEditing presence;
          ts = max (visible_p0b.timestamp existingUser) (presence_p0b.timestamp presence)
      in existingUser\<lparr> visible_p0b.isActive := active,
                       visible_p0b.isEditing := editing,
                       visible_p0b.timestamp := ts,
                       visible_p0b.style := getUserStyle active editing,
                       visible_p0b.timeAgo := getTimeAgo now ts \<rparr>)"

text \<open>One iteration of the loop over \<^verbatim>\<open>presenceMap\<close>, on the local \<^verbatim>\<open>userMap\<close>.\<close>

definition mergeStep_p0b ::
  "int \<Rightarrow> string \<Rightarrow> (string \<times> visible_p0b) list \<Rightarrow> presence_p0b
     \<Rightarrow> (string \<times> visible_p0b) list" where
  "mergeStep_p0b now current userMap presence =
     (if presence_p0b.userId presence = current then userMap
      else case map_of userMap (presence_p0b.userId presence) of
             None \<Rightarrow>
               map_set (presence_p0b.userId presence) (firstSession_p0b now presence) userMap
           | Some existingUser \<Rightarrow>
               map_set (presence_p0b.userId presence)
                 (mergeSession_p0b now existingUser presence) userMap)"

text \<open>The comparator of the sort: editing first, then by timestamp, latest first.\<close>

definition compareUsers_p0b :: "visible_p0b \<Rightarrow> visible_p0b \<Rightarrow> int" where
  "compareUsers_p0b a b =
     (if visible_p0b.isEditing a \<and> \<not> visible_p0b.isEditing b then - 1
      else if \<not> visible_p0b.isEditing a \<and> visible_p0b.isEditing b then 1
      else visible_p0b.timestamp b - visible_p0b.timestamp a)"

text \<open>\<^verbatim>\<open>updateVisibleUsers\<close> (lines 1219-1272); the first argument is the clock reading
  used by \<^verbatim>\<open>getTimeAgo\<close>. \<open>mergedUsers_p0b\<close> is the array
  \<^verbatim>\<open>Array.from(userMap.values())\<close> before it is sorted.\<close>

definition mergedUsers_p0b :: "int \<Rightarrow> component_p0b \<Rightarrow> visible_p0b list" where
  "mergedUsers_p0b now st =
     map snd (foldl (mergeStep_p0b now (component_p0b.currentUserId st)) []
                (map snd (component_p0b.presenceMap st)))"

definition updateVisibleUsers_p0b :: "int \<Rightarrow> component_p0b \<Rightarrow> component_p0b" where
  "updateVisibleUsers_p0b now st =
     st\<lparr> component_p0b.visibleUsers := array_sort compareUsers_p0b (mergedUsers_p0b now st) \<rparr>"

text \<open>\<^verbatim>\<open>checkForDrafts\<close> (lines 1158-1183); the second argument is the result of
  \<^verbatim>\<open>getRecentDrafts\<close>. The inner loop marks every session of the draft's user.\<close>

definition markDraft_p0b :: "draft_p0b \<Rightarrow> presence_p0b \<Rightarrow> presence_p0b" where
  "markDraft_p0b draft presence =
     (if presence_p0b.userId presence = draft_p0b.userId draft then
        (let marked = presence\<lparr> presence_p0b.isEditing := True,
                                presence_p0b.isDrafting := True \<rparr>
         in if presence_p0b.userName marked = [] then
              marked\<lparr> presence_p0b.userName := draft_p0b.userName draft,
                      presence_p0b.userPhotoUrl := draft_p0b.userPhotoUrl draft \<rparr>
            else marked)
      else presence)"

definition checkForDrafts_p0b :: "int \<Rightarrow> draft_p0b list \<Rightarrow> component_p0b \<Rightarrow> component_p0b" where
  "checkForDrafts_p0b now drafts st =
     updateVisibleUsers_p0b now
       (st\<lparr> component_p0b.presenceMap :=
              foldl (\<lambda>m draft. map (\<lambda>(key, presence). (key, markDraft_p0b draft presence)) m)
                (component_p0b.presenceMap st) drafts \<rparr>)"

text \<open>\<^verbatim>\<open>showPresenceToast\<close> (lines 1082-1102) and \<^verbatim>\<open>showGoneToast\<close> (lines 1104-1117).\<close>

definition showPresenceToast_p0b ::
  "component_p0b \<Rightarrow> string \<Rightarrow> string \<Rightarrow> bool \<Rightarrow> bool \<Rightarrow> string \<Rightarrow> toast list" where
  "showPresenceToast_p0b st uid st_name isNewUser wasEditing uname =
     (if uid = component_p0b.currentUserId st then []
      else if isNewUser \<and> showJoinToasts (component_p0b.settings st) then [JoinToast uname]
      else if st_name = ''editing'' \<and> \<not> wasEditing
           \<and> showEditStartToasts (component_p0b.settings st) then [EditingToast uname]
      else if st_name = ''viewing'' \<and> wasEditing
           \<and> showEditStopToasts (component_p0b.settings st) then [StoppedEditingToast uname]
      else [])"

definition showGoneToast_p0b :: "component_p0b \<Rightarrow> string \<Rightarrow> string \<Rightarrow> toast list" where
  "showGoneToast_p0b st uid uname =
     (if uid = component_p0b.currentUserId st then []
      else if \<not> showLeaveToasts (component_p0b.settings st) then []
      else [LeaveToast (if uname = [] then ''Someone'' else uname)])"

text \<open>\<^verbatim>\<open>handlePresenceEvent\<close> (lines 1022-1080); the first argument is the clock reading
  used by \<^verbatim>\<open>updateVisibleUsers\<close>.\<close>

definition handlePresenceEvent_p0b ::
  "int \<Rightarrow> payload \<Rightarrow> component_p0b \<Rightarrow> component_p0b \<times> toast list" where
  "handlePresenceEvent_p0b now p st =
    (if Some (CaseId__c p) \<noteq> component_p0b.recordId st then (st, [])
     else
       let uid = UserId__c p;
           sid = SessionId__c p;
           key = uid @ ''-'' @ sid
       in
       if sid = component_p0b.sessionId st then (st, [])
       else if State__c p = ''gone'' then
         (case map_of (component_p0b.presenceMap st) key of
            Some existingPresence \<Rightarrow>
              (updateVisibleUsers_p0b now
                 (st\<lparr> component_p0b.presenceMap :=
                        map_delete key (component_p0b.presenceMap st) \<rparr>),
               showGoneToast_p0b st uid (presence_p0b.userName existingPresence))
          | None \<Rightarrow> (st, []))
       else
         (let existingPresence = map_of (component_p0b.presenceMap st) key;
              isNewUser = (existingPresence = None);
              wasEditing = (case existingPresence of None \<Rightarrow> False
                            | Some e \<Rightarrow> presence_p0b.isEditing e);
              uname0 = (case existingPresence of None \<Rightarrow> []
                        | Some e \<Rightarrow> presence_p0b.userName e);
              photo = (case existingPresence of None \<Rightarrow> None
                       | Some e \<Rightarrow> presence_p0b.userPhotoUrl e);
              uname = (if uname0 = [] then ''User '' @ take 8 uid else uname0);
              presence =
                \<lparr> presence_p0b.userId = uid,
                  presence_p0b.sessionId = sid,
                  presence_p0b.userName = uname,
                  presence_p0b.userPhotoUrl = photo,
                  presence_p0b.state = State__c p,
                  presence_p0b.isActive = IsActive__c p,
                  presence_p0b.timestamp = Timestamp__c p,
                  presence_p0b.isEditing =
                    (State__c p = ''editing'' \<or> State__c p = ''drafting''),
                  presence_p0b.isDrafting = False \<rparr>
          in (updateVisibleUsers_p0b now
                (st\<lparr> component_p0b.presenceMap :=
                       map_set key presence (component_p0b.presenceMap st) \<rparr>),
              showPresenceToast_p0b st uid (State__c p) isNewUser wasEditing uname)))"

text \<open>\<^verbatim>\<open>cleanupStalePresence\<close> (lines 1191-1217); the argument is \<^verbatim>\<open>Date.now()\<close>. One
  toast per removed user, in the order of the first removed session of each.\<close>

definition cleanupStalePresence_p0b :: "int \<Rightarrow> component_p0b \<Rightarrow> component_p0b \<times> toast list" where
  "cleanupStalePresence_p0b now st =
    (let expirationMs = presenceExpirationMinutes (component_p0b.settings st) * 60 * 1000;
         cutoffTime = now - expirationMs;
         stale = filter (\<lambda>e. presence_p0b.timestamp (snd e) < cutoffTime)
                   (component_p0b.presenceMap st);
         removedUsers =
           foldl (\<lambda>m e. if map_of m (presence_p0b.userId (snd e)) = None
                         then map_set (presence_p0b.userId (snd e))
                                (presence_p0b.userName (snd e)) m
                         else m) [] stale;
         st' = st\<lparr> component_p0b.presenceMap :=
                    filter (\<lambda>e. \<not> presence_p0b.timestamp (snd e) < cutoffTime)
                      (component_p0b.presenceMap st) \<rparr>;
         toasts = concat (map (\<lambda>(uid, uname). showGoneToast_p0b st uid uname) removedUsers)
     in (if stale \<noteq> [] then updateVisibleUsers_p0b now st' else st', toasts))"

text \<open>\<^verbatim>\<open>displayedUsers\<close> (lines 1381-1383).\<close>

definition displayedUsers_p0b :: "component_p0b \<Rightarrow> visible_p0b list" where
  "displayedUsers_p0b st =
     (if component_p0b.isMobile st then component_p0b.visibleUsers st
      else take 5 (component_p0b.visibleUsers st))"


subsection \<open>part_001: one record per user, with the mobile grace period\<close>

record user_p1 =
  userId :: string
  userName :: string
  userPhotoUrl :: "string option"
  state :: string
  lastSeen :: int
  hasDraft :: bool
  isMobile :: bool

record component_p1 =
  visibleUsers :: "user_p1 list"
  currentUserId :: string
  recordId :: "string option"
  currentState :: "string option"
  lastPublishedDraftStatus :: bool
  hasDrafts :: bool
  isActive :: bool
  isMobileDevice :: bool
  isComponentActive :: bool
  settings :: "settings option"
  presenceExpirationMs :: int
  parsedVipUsers :: "string list"
  parsedKeyUsers :: "string list"
  parsedNormalUsers :: "string list"
  vipBadge :: string
  keyBadge :: string
  normalBadge :: string

definition MOBILE_GRACE_PERIOD_MS :: int where
  "MOBILE_GRACE_PERIOD_MS = 60000"

text \<open>The record built in the \<^verbatim>\<open>'gone'\<close> branch for a mobile sender.\<close>

definition goneUser_p1 :: "payload \<Rightarrow> user_p1" where
  "goneUser_p1 p =
     \<lparr> user_p1.userId = UserId__c p,
       user_p1.userName = UserName__c p,
       user_p1.userPhotoUrl = UserPhotoUrl__c p,
       user_p1.state = ''gone'',
       user_p1.lastSeen = Timestamp__c p,
       user_p1.hasDraft = or_false (HasDraft__c p),
       user_p1.isMobile = True \<rparr>"

text \<open>The record built in the join-or-update branch.\<close>

definition newUser_p1 :: "payload \<Rightarrow> user_p1" where
  "newUser_p1 p =
     \<lparr> user_p1.userId = UserId__c p,
       user_p1.userName = UserName__c p,
       user_p1.userPhotoUrl = UserPhotoUrl__c p,
       user_p1.state = State__c p,
       user_p1.lastSeen = Timestamp__c p,
       user_p1.hasDraft = or_false (HasDraft__c p),
       user_p1.isMobile = or_false (IsMobile__c p) \<rparr>"

text \<open>\<^verbatim>\<open>handlePresenceEvent\<close> of part_001 (lines 226-305). The first argument is
  \<^verbatim>\<open>document.visibilityState === 'visible'\<close>.\<close>

definition handlePresenceEvent_p1 ::
  "bool \<Rightarrow> payload \<Rightarrow> component_p1 \<Rightarrow> component_p1 \<times> toast list" where
  "handlePresenceEvent_p1 visible p st =
    (if UserId__c p = component_p1.currentUserId st then (st, [])
     else if Some (CaseId__c p) \<noteq> component_p1.recordId st then (st, [])
     else
       let users = component_p1.visibleUsers st;
           existingUserIndex = findIndex (\<lambda>u. user_p1.userId u = UserId__c p) users
       in
       if State__c p = ''gone'' then
         (if or_false (IsMobile__c p) then
            (case existingUserIndex of
               Some i \<Rightarrow>
                 (st\<lparr> component_p1.visibleUsers := replaceAt i (goneUser_p1 p) users \<rparr>, [])
             | None \<Rightarrow>
                 (st\<lparr> component_p1.visibleUsers := users @ [goneUser_p1 p] \<rparr>, []))
          else
            (case existingUserIndex of
               Some i \<Rightarrow>
                 (st\<lparr> component_p1.visibleUsers := removeAt i users \<rparr>,
                  if visible \<and> setting showLeaveToasts (component_p1.settings st)
                  then [LeaveToast (user_p1.userName (users ! i))] else [])
             | None \<Rightarrow> (st, [])))
       else
         (let user = newUser_p1 p in
          case existingUserIndex of
            Some i \<Rightarrow>
              (let hadDraft = user_p1.hasDraft (users ! i);
                   nowHasDraft = or_false (HasDraft__c p)
               in
               (st\<lparr> component_p1.visibleUsers := replaceAt i user users \<rparr>,
                if visible then
                  (if \<not> hadDraft \<and> nowHasDraft
                      \<and> setting showEditStartToasts (component_p1.settings st)
                   then [EditingToast (user_p1.userName user)]
                   else if hadDraft \<and> \<not> nowHasDraft
                      \<and> setting showEditStopToasts (component_p1.settings st)
                   then [StoppedEditingToast (user_p1.userName user)]
                   else [])
                else []))
          | None \<Rightarrow>
              (st\<lparr> component_p1.visibleUsers := users @ [user] \<rparr>,
               if visible \<and> setting showJoinToasts (component_p1.settings st)
               then [JoinToast (user_p1.userName user)] else [])))"

text \<open>\<^verbatim>\<open>filterExpiredUsers\<close> of part_001 (lines 454-475); the argument is \<^verbatim>\<open>Date.now()\<close>.\<close>

definition retained_p1 :: "int \<Rightarrow> int \<Rightarrow> user_p1 \<Rightarrow> bool" where
  "retained_p1 expirationMs now user =
     (let age = now - user_p1.lastSeen user in
      if user_p1.isMobile user then age < MOBILE_GRACE_PERIOD_MS
      else age < expirationMs)"

definition filterExpiredUsers_p1 :: "int \<Rightarrow> component_p1 \<Rightarrow> component_p1" where
  "filterExpiredUsers_p1 now st =
     st\<lparr> component_p1.visibleUsers :=
           filter (retained_p1 (component_p1.presenceExpirationMs st) now)
             (component_p1.visibleUsers st) \<rparr>"

text \<open>The window that \<^verbatim>\<open>filterExpiredUsers\<close> applies to a listed user.\<close>

definition window_p1 :: "component_p1 \<Rightarrow> user_p1 \<Rightarrow> int" where
  "window_p1 st u = (if user_p1.isMobile u then MOBILE_GRACE_PERIOD_MS
                     else component_p1.presenceExpirationMs st)"

text \<open>A run of expiration sweeps, one per timer tick, at the given clock readings.\<close>

fun sweeps_p1 :: "int list \<Rightarrow> component_p1 \<Rightarrow> component_p1" where
  "sweeps_p1 [] st = st"
| "sweeps_p1 (now # nows) st = sweeps_p1 nows (filterExpiredUsers_p1 now st)"

text \<open>\<^verbatim>\<open>publishStateChange\<close> of part_001 (lines 425-444): no comparison with the
  published state; every call that passes the guard reaches \<^verbatim>\<open>publishPresence\<close>.\<close>

definition publishStateChange_p1 ::
  "outcome \<Rightarrow> string \<Rightarrow> component_p1
     \<Rightarrow> component_p1 \<times> (publishPresence_params \<times> outcome) list" where
  "publishStateChange_p1 result newState st =
    (case component_p1.recordId st of
       None \<Rightarrow> (st, [])
     | Some rid \<Rightarrow>
        if rid = [] \<or> \<not> component_p1.isComponentActive st then (st, [])
        else
          (st\<lparr> component_p1.currentState := Some newState,
               component_p1.lastPublishedDraftStatus := component_p1.hasDrafts st \<rparr>,
           [(\<lparr> publishPresence_params.caseId = rid,
                publishPresence_params.sessionId = None,
                publishPresence_params.state = newState,
                publishPresence_params.hasDraft = Some (component_p1.hasDrafts st),
                publishPresence_params.isActive = None,
                publishPresence_params.callType = Some ''heartbeat'',
                publishPresence_params.isMobile = Some (component_p1.isMobileDevice st) \<rparr>,
             result)]))"

text \<open>Events delivered one after the other, each with the tab visibility at its
  delivery; the toasts are collected in order.\<close>

fun deliver_p1 :: "(bool \<times> payload) list \<Rightarrow> component_p1 \<Rightarrow> component_p1 \<times> toast list" where
  "deliver_p1 [] st = (st, [])"
| "deliver_p1 ((visible, p) # evs) st =
     (let (st', ts) = handlePresenceEvent_p1 visible p st;
          (st'', ts') = deliver_p1 evs st'
      in (st'', ts @ ts'))"

text \<open>\<^verbatim>\<open>formatIdleTime\<close> (lines 653-657) and \<^verbatim>\<open>getStateLabel\<close> (lines 641-651). The
  stored \<^verbatim>\<open>lastSeen\<close> is a \<^verbatim>\<open>Date\<close> object, hence truthy.\<close>

definition formatIdleTime :: "host \<Rightarrow> int \<Rightarrow> string" where
  "formatIdleTime h lastSeenDate =
     pad2 (getHours h lastSeenDate) @ '':'' @ pad2 (getMinutes h lastSeenDate)"

definition getStateLabel_p1 :: "host \<Rightarrow> user_p1 \<Rightarrow> string" where
  "getStateLabel_p1 h user =
     (if user_p1.isMobile user then (if user_p1.hasDraft user then ''Editing'' else ''Active'')
      else if user_p1.state user = ''active''
      then (if user_p1.hasDraft user then ''Editing'' else ''Active'')
      else ''Idle since '' @ formatIdleTime h (user_p1.lastSeen user))"

text \<open>An element of \<^verbatim>\<open>displayedUsers\<close>: the user record spread, with the computed
  properties added.\<close>

record displayed_p1 = user_p1 +
  firstName :: string
  stateLabel :: string
  isEditing :: bool
  containerStyle :: string
  photoClass :: string
  badge :: "string option"
  showMobileIcon :: bool

text \<open>\<^verbatim>\<open>displayedUsers\<close> of part_001 (lines 588-620): the list is mapped in its order
  and, unless the viewport is narrow, cut to its first five elements. Nothing is
  sorted.\<close>

definition displayUser_p1 :: "host \<Rightarrow> component_p1 \<Rightarrow> user_p1 \<Rightarrow> displayed_p1" where
  "displayUser_p1 h st user =
     (let opacity = (if user_p1.state user = ''active'' \<or> user_p1.isMobile user
                     then ''1'' else ''0.5'');
          fullName = user_p1.userName user;
          first = takeWhile (\<lambda>c. c \<noteq> CHR '' '') fullName;
          userNameLower = toLowerCase h first;
          b = (if userNameLower \<in> set (component_p1.parsedVipUsers st)
               then Some (component_p1.vipBadge st)
               else if userNameLower \<in> set (component_p1.parsedKeyUsers st)
               then Some (component_p1.keyBadge st)
               else if userNameLower \<in> set (component_p1.parsedNormalUsers st)
               then Some (component_p1.normalBadge st)
               else None)
      in user_p1.extend user
           (displayed_p1.fields first (getStateLabel_p1 h user) (user_p1.hasDraft user)
              (''opacity: '' @ opacity @ '';'')
              (''avatar-photo '' @ (if user_p1.hasDraft user then ''editing'' else []))
              b (user_p1.isMobile user)))"

definition displayedUsers_p1 :: "host \<Rightarrow> component_p1 \<Rightarrow> displayed_p1 list" where
  "displayedUsers_p1 h st =
     (let mappedUsers = map (displayUser_p1 h st) (component_p1.visibleUsers st)
      in if narrowViewport h then mappedUsers else take 5 mappedUsers)"

text \<open>A run of the two operations that change \<^verbatim>\<open>visibleUsers\<close> after start-up: the
  delivery of an event and a tick of the expiration timer.\<close>

fun run_p1 :: "step list \<Rightarrow> component_p1 \<Rightarrow> component_p1" where
  "run_p1 [] st = st"
| "run_p1 (Assertion visible p # steps) st =
     run_p1 steps (fst (handlePresenceEvent_p1 visible p st))"
| "run_p1 (Sweep now # steps) st = run_p1 steps (filterExpiredUsers_p1 now st)"

subsection \<open>part_002: one record per user and session, own session listed\<close>

record user_p2 =
  userId :: string
  userName :: string
  userPhotoUrl :: "string option"
  state :: string
  sessionId :: string
  lastSeen :: int
  isActive :: bool
  hasDraft :: bool
  draftAge :: "int option"

record component_p2 =
  visibleUsers :: "user_p2 list"
  sessionId :: string
  currentUserId :: string
  currentUserName :: string
  currentState :: "string option"
  hasDrafts :: bool
  isActive :: bool
  isComponentActive :: bool
  recordId :: "string option"

definition PRESENCE_EXPIRATION_MS :: int where
  "PRESENCE_EXPIRATION_MS = 600000"

text \<open>\<^verbatim>\<open>String.prototype.includes\<close>\<close>

fun includes_str :: "string \<Rightarrow> string \<Rightarrow> bool" where
  "includes_str needle [] = (needle = [])"
| "includes_str needle (c # cs) =
     (take (length needle) (c # cs) = needle \<or> includes_str needle cs)"

definition newUser_p2 :: "payload \<Rightarrow> user_p2" where
  "newUser_p2 p =
     \<lparr> user_p2.userId = UserId__c p,
       user_p2.userName = UserName__c p,
       user_p2.userPhotoUrl = UserPhotoUrl__c p,
       user_p2.state = State__c p,
       user_p2.sessionId = SessionId__c p,
       user_p2.lastSeen = Timestamp__c p,
       user_p2.isActive = IsActive__c p,
       user_p2.hasDraft = False,
       user_p2.draftAge = None \<rparr>"

text \<open>\<^verbatim>\<open>handlePresenceEvent\<close> of part_002 (lines 205-264): only the events of the
  component's own session are ignored; the toasts are not subject to settings.\<close>

definition handlePresenceEvent_p2 ::
  "bool \<Rightarrow> payload \<Rightarrow> component_p2 \<Rightarrow> component_p2 \<times> toast list" where
  "handlePresenceEvent_p2 visible p st =
    (if UserId__c p = component_p2.currentUserId st
        \<and> SessionId__c p = component_p2.sessionId st then (st, [])
     else if Some (CaseId__c p) \<noteq> component_p2.recordId st then (st, [])
     else
       let users = component_p2.visibleUsers st;
           existingUserIndex =
             findIndex (\<lambda>u. user_p2.userId u = UserId__c p
                           \<and> user_p2.sessionId u = SessionId__c p) users
       in
       if State__c p = ''gone'' then
         (case existingUserIndex of
            Some i \<Rightarrow>
              (st\<lparr> component_p2.visibleUsers := removeAt i users \<rparr>,
               if component_p2.isActive st \<and> visible
               then [LeaveToast (user_p2.userName (users ! i))] else [])
          | None \<Rightarrow> (st, []))
       else
         (let user = newUser_p2 p in
          case existingUserIndex of
            Some i \<Rightarrow> (st\<lparr> component_p2.visibleUsers := replaceAt i user users \<rparr>, [])
          | None \<Rightarrow>
              (st\<lparr> component_p2.visibleUsers := users @ [user] \<rparr>,
               if component_p2.isActive st \<and> visible
               then [JoinToast (user_p2.userName user)] else [])))"

text \<open>\<^verbatim>\<open>updateOwnPresence\<close> of part_002 (lines 358-383); the first argument is the
  clock reading of \<^verbatim>\<open>new Date()\<close>.\<close>

definition ownUser_p2 :: "int \<Rightarrow> string \<Rightarrow> component_p2 \<Rightarrow> user_p2" where
  "ownUser_p2 now st_name st =
     \<lparr> user_p2.userId = component_p2.currentUserId st,
       user_p2.userName = component_p2.currentUserName st @ '' (you)'',
       user_p2.userPhotoUrl = None,
       user_p2.state = st_name,
       user_p2.sessionId = component_p2.sessionId st,
       user_p2.lastSeen = now,
       user_p2.isActive = component_p2.isActive st,
       user_p2.hasDraft = component_p2.hasDrafts st,
       user_p2.draftAge = None \<rparr>"

definition updateOwnPresence_p2 :: "int \<Rightarrow> string \<Rightarrow> component_p2 \<Rightarrow> component_p2" where
  "updateOwnPresence_p2 now st_name st =
    (let users = component_p2.visibleUsers st;
         existingIndex =
           findIndex (\<lambda>u. user_p2.userId u = component_p2.currentUserId st
                         \<and> user_p2.sessionId u = component_p2.sessionId st) users;
         ownUser = ownUser_p2 now st_name st
     in case existingIndex of
          Some i \<Rightarrow> st\<lparr> component_p2.visibleUsers := replaceAt i ownUser users \<rparr>
        | None \<Rightarrow> st\<lparr> component_p2.visibleUsers := users @ [ownUser] \<rparr>)"

text \<open>\<^verbatim>\<open>publishStateChange\<close> of part_002 (lines 324-356). The first argument is the clock
  reading used by \<^verbatim>\<open>updateOwnPresence\<close>, the second how the \<^verbatim>\<open>publishPresence\<close>
  promise settles. The component is taken to be still active when the promise resolves
  (no \<^verbatim>\<open>cleanup\<close> in between).\<close>

definition publishStateChange_p2 ::
  "int \<Rightarrow> outcome \<Rightarrow> string \<Rightarrow> component_p2
     \<Rightarrow> component_p2 \<times> (publishPresence_params \<times> outcome) list" where
  "publishStateChange_p2 now result newState st =
    (case component_p2.recordId st of
       None \<Rightarrow> (st, [])
     | Some rid \<Rightarrow>
        if \<not> component_p2.isComponentActive st \<or> rid = [] then (st, [])
        else if Some newState = component_p2.currentState st then (st, [])
        else
          (let st' = st\<lparr> component_p2.currentState := Some newState \<rparr>;
               call =
                 \<lparr> publishPresence_params.caseId = rid,
                   publishPresence_params.sessionId = Some (component_p2.sessionId st'),
                   publishPresence_params.state = newState,
                   publishPresence_params.hasDraft = None,
                   publishPresence_params.isActive = Some (component_p2.isActive st'),
                   publishPresence_params.callType =
                     Some (if includes_str ''draft'' newState then ''draftCheck'' else ''heartbeat''),
                   publishPresence_params.isMobile = None \<rparr>
           in case result of
                Resolved \<Rightarrow> (updateOwnPresence_p2 now newState st', [(call, result)])
              | Rejected \<Rightarrow> (st', [(call, result)])))"

text \<open>\<^verbatim>\<open>filterExpiredUsers\<close> of part_002 (lines 397-411); the argument is \<^verbatim>\<open>Date.now()\<close>.\<close>

definition retained_p2 :: "int \<Rightarrow> user_p2 \<Rightarrow> bool" where
  "retained_p2 now user =
     (let age = now - user_p2.lastSeen user in age < PRESENCE_EXPIRATION_MS)"

definition filterExpiredUsers_p2 :: "int \<Rightarrow> component_p2 \<Rightarrow> component_p2" where
  "filterExpiredUsers_p2 now st =
     st\<lparr> component_p2.visibleUsers :=
           filter (retained_p2 now) (component_p2.visibleUsers st) \<rparr>"

subsection \<open>Concrete inputs\<close>

text \<open>Fixed inputs on which the properties below are evaluated.\<close>

definition exampleSettings :: settings where
  "exampleSettings = \<lparr> presenceExpirationMinutes = 10, showJoinToasts = True, showLeaveToasts = True,
      showEditStartToasts = True, showEditStopToasts = True \<rparr>"

definition alice_p1 :: user_p1 where
  "alice_p1 = \<lparr> user_p1.userId = ''alice'', user_p1.userName = ''Alice A'',
      user_p1.userPhotoUrl = Some ''a.png'', user_p1.state = ''active'', user_p1.lastSeen = 1000,
      user_p1.hasDraft = False, user_p1.isMobile = False \<rparr>"

definition exampleComponent_p1 :: component_p1 where
  "exampleComponent_p1 = \<lparr> component_p1.visibleUsers = [alice_p1],
      component_p1.currentUserId = ''me'', component_p1.recordId = Some ''case1'',
      component_p1.currentState = Some ''active'', component_p1.lastPublishedDraftStatus = False,
      component_p1.hasDrafts = False, component_p1.isActive = True,
      component_p1.isMobileDevice = False, component_p1.isComponentActive = True,
      component_p1.settings = Some exampleSettings,
      component_p1.presenceExpirationMs = 600000,
      component_p1.parsedVipUsers = [], component_p1.parsedKeyUsers = [],
      component_p1.parsedNormalUsers = [], component_p1.vipBadge = ''V'',
      component_p1.keyBadge = ''K'', component_p1.normalBadge = ''N'' \<rparr>"

text \<open>A \<^verbatim>\<open>'gone'\<close> event on case \<^verbatim>\<open>case1\<close>.\<close>

definition goneEvent :: "string \<Rightarrow> bool \<Rightarrow> int \<Rightarrow> payload" where
  "goneEvent uid mobile ts = \<lparr> CaseId__c = ''case1'', UserId__c = uid, UserName__c = uid,
      UserPhotoUrl__c = None, State__c = ''gone'', Timestamp__c = ts, HasDraft__c = Some False,
      IsMobile__c = Some mobile, SessionId__c = ''s1'', IsActive__c = False \<rparr>"

definition alice_p0a :: user_p0a where
  "alice_p0a = \<lparr> user_p0a.userId = ''alice'', user_p0a.userName = ''Alice A'',
      user_p0a.userPhotoUrl = Some ''a.png'', user_p0a.state = ''active'',
      user_p0a.lastSeen = 1000, user_p0a.hasDraft = False \<rparr>"

definition exampleComponent_p0a :: component_p0a where
  "exampleComponent_p0a = \<lparr> component_p0a.visibleUsers = [alice_p0a],
      component_p0a.currentUserId = ''me'', component_p0a.recordId = Some ''case1'',
      component_p0a.currentState = None, component_p0a.lastPublishedDraftStatus = False,
      component_p0a.hasDrafts = False, component_p0a.isActive = True,
      component_p0a.isComponentActive = True,
      component_p0a.settings = Some exampleSettings,
      component_p0a.presenceExpirationMs = 600000 \<rparr>"

definition alice_p2 :: user_p2 where
  "alice_p2 = \<lparr> user_p2.userId = ''alice'', user_p2.userName = ''Alice A'',
      user_p2.userPhotoUrl = Some ''a.png'', user_p2.state = ''active'',
      user_p2.sessionId = ''session-a'', user_p2.lastSeen = 1000, user_p2.isActive = True,
      user_p2.hasDraft = False, user_p2.draftAge = None \<rparr>"

definition exampleComponent_p2 :: component_p2 where
  "exampleComponent_p2 = \<lparr> component_p2.visibleUsers = [alice_p2],
      component_p2.sessionId = ''session-me'', component_p2.currentUserId = ''me'',
      component_p2.currentUserName = ''Me M'', component_p2.currentState = None,
      component_p2.hasDrafts = False, component_p2.isActive = True,
      component_p2.isComponentActive = True, component_p2.recordId = Some ''case1'' \<rparr>"

text \<open>A heartbeat event on case \<^verbatim>\<open>case1\<close> from a desktop session.\<close>

definition heartbeatEvent :: "string \<Rightarrow> string \<Rightarrow> bool \<Rightarrow> int \<Rightarrow> payload" where
  "heartbeatEvent uid st_name draft ts = \<lparr> CaseId__c = ''case1'', UserId__c = uid,
      UserName__c = uid, UserPhotoUrl__c = None, State__c = st_name, Timestamp__c = ts,
      HasDraft__c = Some draft, IsMobile__c = Some False, SessionId__c = ''s1'',
      IsActive__c = (st_name = ''active'') \<rparr>"

text \<open>A component of the second kind of part_000 holding two sessions of one user, the
  first focused and editing, the second idle, and one idle session of another user.\<close>

definition session_p0b :: "string \<Rightarrow> string \<Rightarrow> bool \<Rightarrow> bool \<Rightarrow> int \<Rightarrow> presence_p0b" where
  "session_p0b uid sid active editing ts =
     \<lparr> presence_p0b.userId = uid, presence_p0b.sessionId = sid,
       presence_p0b.userName = uid, presence_p0b.userPhotoUrl = None,
       presence_p0b.state = (if editing then ''editing'' else ''viewing''),
       presence_p0b.isActive = active, presence_p0b.timestamp = ts,
       presence_p0b.isEditing = editing, presence_p0b.isDrafting = False \<rparr>"

definition exampleComponent_p0b :: component_p0b where
  "exampleComponent_p0b = \<lparr> component_p0b.presenceMap =
        [(''alice-s1'', session_p0b ''alice'' ''s1'' True True 100),
         (''bob-s2'', session_p0b ''bob'' ''s2'' False False 200),
         (''alice-s3'', session_p0b ''alice'' ''s3'' False False 300)],
      component_p0b.visibleUsers = [],
      component_p0b.sessionId = ''s0'', component_p0b.currentUserId = ''me'',
      component_p0b.recordId = Some ''case1'', component_p0b.settings = exampleSettings,
      component_p0b.isMobile = False \<rparr>"

text \<open>The three actors of the ordering example, at \<open>t = 100\<close>: B idle at \<open>t - 5\<close>,
  C editing at \<open>t - 50\<close>, D idle at \<open>t - 1\<close>; as merged entries of the second component
  of part_000 and as listed users of part_001.\<close>

definition actor_p0b :: "string \<Rightarrow> bool \<Rightarrow> int \<Rightarrow> visible_p0b" where
  "actor_p0b uid editing ts =
     \<lparr> visible_p0b.userId = uid, visible_p0b.userName = uid, visible_p0b.userPhotoUrl = None,
       visible_p0b.isActive = editing, visible_p0b.isEditing = editing,
       visible_p0b.timestamp = ts, visible_p0b.style = getUserStyle editing editing,
       visible_p0b.timeAgo = getTimeAgo 100 ts \<rparr>"

definition actor_p1 :: "string \<Rightarrow> bool \<Rightarrow> int \<Rightarrow> user_p1" where
  "actor_p1 uid editing ts =
     \<lparr> user_p1.userId = uid, user_p1.userName = uid, user_p1.userPhotoUrl = None,
       user_p1.state = (if editing then ''active'' else ''idle''), user_p1.lastSeen = ts,
       user_p1.hasDraft = editing, user_p1.isMobile = False \<rparr>"

definition exampleHost :: host where
  "exampleHost = \<lparr> narrowViewport = False, toLowerCase = (\<lambda>s. s),
      getHours = (\<lambda>ms. nat ((ms div 3600000) mod 24)),
      getMinutes = (\<lambda>ms. nat ((ms div 60000) mod 60)) \<rparr>"

text \<open>A second listed desktop user, and the component of part_001 listing both.\<close>

definition carol_p1 :: user_p1 where
  "carol_p1 = \<lparr> user_p1.userId = ''carol'', user_p1.userName = ''Carol C'',
      user_p1.userPhotoUrl = None, user_p1.state = ''idle'', user_p1.lastSeen = 3000,
      user_p1.hasDraft = True, user_p1.isMobile = False \<rparr>"

definition twoUsers_p1 :: component_p1 where
  "twoUsers_p1 = exampleComponent_p1\<lparr> component_p1.visibleUsers := [alice_p1, carol_p1] \<rparr>"


text \<open>Heartbeats of two users, delivered interleaved and out of timestamp order.\<close>

definition interleavedEvents :: "(bool \<times> payload) list" where
  "interleavedEvents =
     [(True, heartbeatEvent ''alice'' ''active'' False 2000),
      (True, heartbeatEvent ''bob'' ''idle'' False 1500),
      (True, heartbeatEvent ''alice'' ''idle'' False 500),
      (False, heartbeatEvent ''bob'' ''active'' True 100)]"


section \<open>Properties\<close>

subsection \<open>Array helpers\<close>

lemma findIndex_None_iff: "findIndex P xs = None \<longleftrightarrow> (\<forall>x \<in> set xs. \<not> P x)"
  by (induction xs) auto

lemma findIndex_Some_lt: "findIndex P xs = Some i \<Longrightarrow> i < length xs"
  by (induction xs arbitrary: i) (auto split: if_splits)

lemma findIndex_Some_nth: "findIndex P xs = Some i \<Longrightarrow> P (xs ! i)"
  by (induction xs arbitrary: i) (auto split: if_splits)

lemma removeAt_take_drop: "removeAt i xs = take i xs @ drop (Suc i) xs"
proof -
  have "map snd (filter (\<lambda>(j, _). j \<noteq> i + n) (enumerate n xs))
          = take i xs @ drop (Suc i) xs" for n
  proof (induction xs arbitrary: i n)
    case Nil
    then show ?case by simp
  next
    case (Cons x xs)
    show ?case
    proof (cases i)
      case 0
      have "filter (\<lambda>(j, _). j \<noteq> n) (enumerate (Suc n) xs) = enumerate (Suc n) xs"
        by (rule filter_True) (auto simp: in_set_enumerate_eq)
      with 0 show ?thesis by simp
    next
      case (Suc k)
      with Cons.IH [of k "Suc n"] show ?thesis by simp
    qed
  qed
  from this [of 0] show ?thesis by (simp add: removeAt_def)
qed

lemma replaceAt_map_same:
  assumes "i < length xs" "f x = f (xs ! i)"
  shows "map f (replaceAt i x xs) = map f xs"
proof -
  have "xs = take i xs @ xs ! i # drop (Suc i) xs"
    using assms(1) by (rule id_take_nth_drop)
  then have "map f xs = map f (take i xs) @ f (xs ! i) # map f (drop (Suc i) xs)"
    by (metis map_append list.simps(9))
  then show ?thesis
    using assms(2) by (simp add: replaceAt_def)
qed

lemma nth_mem_replaceAt: "i < length xs \<Longrightarrow> x \<in> set (replaceAt i x xs)"
  by (simp add: replaceAt_def)

lemma set_removeAt_subset: "set (removeAt i xs) \<subseteq> set xs"
  by (auto simp: removeAt_take_drop dest: in_set_takeD in_set_dropD)

subsection \<open>The stable sort\<close>

lemma set_insert_sorted: "set (insert_sorted cmp x xs) = insert x (set xs)"
  by (induction xs) auto

lemma set_array_sort: "set (array_sort cmp xs) = set xs"
  by (induction xs) (auto simp: set_insert_sorted)

lemma sorted_insert_sorted:
  assumes total: "\<And>a b. cmp a b \<le> 0 \<or> cmp b a \<le> 0"
    and trans: "\<And>a b c. cmp a b \<le> 0 \<Longrightarrow> cmp b c \<le> 0 \<Longrightarrow> cmp a c \<le> 0"
    and "sorted_wrt (\<lambda>a b. cmp a b \<le> 0) xs"
  shows "sorted_wrt (\<lambda>a b. cmp a b \<le> 0) (insert_sorted cmp x xs)"
  using assms(3)
proof (induction xs)
  case Nil
  show ?case by simp
next
  case (Cons y ys)
  show ?case
  proof (cases "cmp x y \<le> 0")
    case True
    with Cons.prems trans [of x y] show ?thesis by auto
  next
    case False
    with total [of x y] have "cmp y x \<le> 0" by simp
    with False Cons show ?thesis by (auto simp: set_insert_sorted)
  qed
qed

lemma sorted_array_sort:
  assumes "\<And>a b. cmp a b \<le> 0 \<or> cmp b a \<le> 0"
    and "\<And>a b c. cmp a b \<le> 0 \<Longrightarrow> cmp b c \<le> 0 \<Longrightarrow> cmp a c \<le> 0"
  shows "sorted_wrt (\<lambda>a b. cmp a b \<le> 0) (array_sort cmp xs)"
  by (induction xs) (simp_all add: sorted_insert_sorted [OF assms])

lemma filter_insert_sorted:
  assumes "\<forall>y \<in> set xs. P x \<longrightarrow> P y \<longrightarrow> cmp x y \<le> 0"
  shows "filter P (insert_sorted cmp x xs) = (if P x then x # filter P xs else filter P xs)"
  using assms by (induction xs) auto

lemma filter_array_sort_stable:
  assumes "\<And>x y. P x \<Longrightarrow> P y \<Longrightarrow> cmp x y \<le> 0"
  shows "filter P (array_sort cmp xs) = filter P xs"
proof (induction xs)
  case Nil
  show ?case by simp
next
  case (Cons x xs)
  have "\<forall>y \<in> set (array_sort cmp xs). P x \<longrightarrow> P y \<longrightarrow> cmp x y \<le> 0"
    using assms by blast
  from filter_insert_sorted [of "array_sort cmp xs" P x cmp, OF this] Cons.IH
  show ?case by simp
qed

lemma compareUsers_p0b_le:
  "compareUsers_p0b a b \<le> 0 \<longleftrightarrow>
     (visible_p0b.isEditing a \<and> \<not> visible_p0b.isEditing b)
     \<or> (visible_p0b.isEditing a = visible_p0b.isEditing b
         \<and> visible_p0b.timestamp b \<le> visible_p0b.timestamp a)"
  by (auto simp: compareUsers_p0b_def)

lemma sorted_compareUsers_p0b:
  "sorted_wrt (\<lambda>a b. compareUsers_p0b a b \<le> 0) (array_sort compareUsers_p0b xs)"
proof (rule sorted_array_sort)
  show "compareUsers_p0b a b \<le> 0 \<or> compareUsers_p0b b a \<le> 0" for a b
    by (auto simp: compareUsers_p0b_le)
  show "compareUsers_p0b a b \<le> 0 \<Longrightarrow> compareUsers_p0b b c \<le> 0 \<Longrightarrow> compareUsers_p0b a c \<le> 0"
    for a b c
    by (auto simp: compareUsers_p0b_le)
qed


subsection \<open>part_000, second component: the merge of sessions per user\<close>

lemma map_of_map_set: "map_of (map_set k v m) = (map_of m)(k \<mapsto> v)"
  by (induction m) (auto simp: fun_eq_iff)

lemma keys_map_set:
  "map fst (map_set k v m) = (if k \<in> fst ` set m then map fst m else map fst m @ [k])"
  by (induction m) force+

lemma distinct_map_set: "distinct (map fst m) \<Longrightarrow> distinct (map fst (map_set k v m))"
  by (simp add: keys_map_set)

lemma in_map_set_cases: "e \<in> set (map_set k v m) \<Longrightarrow> e = (k, v) \<or> e \<in> set m"
  by (induction m) (auto split: if_splits)

lemma mset_insert_sorted: "mset (insert_sorted cmp x xs) = add_mset x (mset xs)"
  by (induction xs) auto

lemma mset_array_sort: "mset (array_sort cmp xs) = mset xs"
  by (induction xs) (auto simp: mset_insert_sorted)




lemma Max_snoc_filter:
  assumes "xs \<noteq> []"
  shows "Max (f ` set (xs @ [x])) = max (Max (f ` set xs)) (f x)"
proof -
  have "f ` set (xs @ [x]) = insert (f x) (f ` set xs)" by auto
  moreover have "finite (f ` set xs)" "f ` set xs \<noteq> {}" using assms by auto
  ultimately show ?thesis by (simp add: max.commute)
qed

lemma merge_invariant:
  "distinct (map fst (foldl (mergeStep_p0b now cur) [] ps))
   \<and> (\<forall>e \<in> set (foldl (mergeStep_p0b now cur) [] ps). visible_p0b.userId (snd e) = fst e)
   \<and> (\<forall>uid. case map_of (foldl (mergeStep_p0b now cur) [] ps) uid of
          None \<Rightarrow> uid = cur \<or> filter (\<lambda>p. presence_p0b.userId p = uid) ps = []
        | Some v \<Rightarrow>
            uid \<noteq> cur \<and> filter (\<lambda>p. presence_p0b.userId p = uid) ps \<noteq> []
            \<and> visible_p0b.isActive v
                = (\<exists>p \<in> set (filter (\<lambda>p. presence_p0b.userId p = uid) ps).
                     presence_p0b.isActive p)
            \<and> visible_p0b.isEditing v
                = (\<exists>p \<in> set (filter (\<lambda>p. presence_p0b.userId p = uid) ps).
                     presence_p0b.isEditing p)
            \<and> visible_p0b.timestamp v
                = Max (presence_p0b.timestamp `
                    set (filter (\<lambda>p. presence_p0b.userId p = uid) ps)))"
proof (induction ps rule: rev_induct)
  case Nil
  show ?case by simp
next
  case (snoc p ps)
  let ?um = "foldl (mergeStep_p0b now cur) [] ps"
  let ?k = "presence_p0b.userId p"
  let ?S = "\<lambda>uid qs. filter (\<lambda>q. presence_p0b.userId q = uid) qs"
  have step: "foldl (mergeStep_p0b now cur) [] (ps @ [p]) = mergeStep_p0b now cur ?um p"
    by simp
  from snoc.IH have d: "distinct (map fst ?um)"
    by blast
  from snoc.IH have ids: "\<forall>e \<in> set ?um. visible_p0b.userId (snd e) = fst e"
    by blast
  from snoc.IH have IH: "case map_of ?um uid of
          None \<Rightarrow> uid = cur \<or> ?S uid ps = []
        | Some v \<Rightarrow>
            uid \<noteq> cur \<and> ?S uid ps \<noteq> []
            \<and> visible_p0b.isActive v = (\<exists>q \<in> set (?S uid ps). presence_p0b.isActive q)
            \<and> visible_p0b.isEditing v = (\<exists>q \<in> set (?S uid ps). presence_p0b.isEditing q)
            \<and> visible_p0b.timestamp v = Max (presence_p0b.timestamp ` set (?S uid ps))" for uid
    by blast
  have none: "uid = cur \<or> ?S uid ps = []" if "map_of ?um uid = None" for uid
    using IH [of uid] that by simp
  have some: "uid \<noteq> cur \<and> ?S uid ps \<noteq> []
            \<and> visible_p0b.isActive v = (\<exists>q \<in> set (?S uid ps). presence_p0b.isActive q)
            \<and> visible_p0b.isEditing v = (\<exists>q \<in> set (?S uid ps). presence_p0b.isEditing q)
            \<and> visible_p0b.timestamp v = Max (presence_p0b.timestamp ` set (?S uid ps))"
    if "map_of ?um uid = Some v" for uid v
    using IH [of uid] that by simp
  show ?case
  proof (cases "?k = cur")
    case True
    then have um: "mergeStep_p0b now cur ?um p = ?um"
      by (simp add: mergeStep_p0b_def)
    have S: "?S uid (ps @ [p]) = ?S uid ps" if "uid \<noteq> cur" for uid
      using that True by auto
    show ?thesis
      unfolding step um
    proof (intro conjI allI)
      show "distinct (map fst ?um)" by (rule d)
      show "\<forall>e \<in> set ?um. visible_p0b.userId (snd e) = fst e" by (rule ids)
      fix uid
      show "case map_of ?um uid of
          None \<Rightarrow> uid = cur \<or> ?S uid (ps @ [p]) = []
        | Some v \<Rightarrow>
            uid \<noteq> cur \<and> ?S uid (ps @ [p]) \<noteq> []
            \<and> visible_p0b.isActive v
                = (\<exists>p \<in> set (?S uid (ps @ [p])). presence_p0b.isActive p)
            \<and> visible_p0b.isEditing v
                = (\<exists>p \<in> set (?S uid (ps @ [p])). presence_p0b.isEditing p)
            \<and> visible_p0b.timestamp v
                = Max (presence_p0b.timestamp ` set (?S uid (ps @ [p])))"
      proof (cases "map_of ?um uid")
        case None
        from none [OF None] show ?thesis
          using None S [of uid] by (cases "uid = cur") simp_all
      next
        case (Some v)
        from some [OF Some] show ?thesis
          using Some S [of uid] by simp
      qed
    qed
  next
    case False
    show ?thesis
    proof (cases "map_of ?um ?k")
      case None
      with False have um: "mergeStep_p0b now cur ?um p = map_set ?k (firstSession_p0b now p) ?um"
        by (simp add: mergeStep_p0b_def)
      from none [OF None] False have empty: "?S ?k ps = []" by simp
      show ?thesis
        unfolding step um
      proof (intro conjI allI)
        show "distinct (map fst (map_set ?k (firstSession_p0b now p) ?um))"
          using d by (rule distinct_map_set)
        show "\<forall>e \<in> set (map_set ?k (firstSession_p0b now p) ?um).
                visible_p0b.userId (snd e) = fst e"
          using ids by (auto dest!: in_map_set_cases simp: firstSession_p0b_def)
        fix uid
        show "case map_of (map_set ?k (firstSession_p0b now p) ?um) uid of
          None \<Rightarrow> uid = cur \<or> ?S uid (ps @ [p]) = []
        | Some v \<Rightarrow>
            uid \<noteq> cur \<and> ?S uid (ps @ [p]) \<noteq> []
            \<and> visible_p0b.isActive v
                = (\<exists>p \<in> set (?S uid (ps @ [p])). presence_p0b.isActive p)
            \<and> visible_p0b.isEditing v
                = (\<exists>p \<in> set (?S uid (ps @ [p])). presence_p0b.isEditing p)
            \<and> visible_p0b.timestamp v
                = Max (presence_p0b.timestamp ` set (?S uid (ps @ [p])))"
        proof (cases "uid = ?k")
          case True
          with empty False show ?thesis
            by (simp add: map_of_map_set firstSession_p0b_def)
        next
          case neq: False
          then have S: "?S uid (ps @ [p]) = ?S uid ps" by auto
          show ?thesis
          proof (cases "map_of ?um uid")
            case None
            from none [OF None] show ?thesis
              using None neq S by (simp add: map_of_map_set)
          next
            case (Some v)
            from some [OF Some] show ?thesis
              using Some neq S by (simp add: map_of_map_set)
          qed
        qed
      qed
    next
      case (Some e)
      with False have um:
        "mergeStep_p0b now cur ?um p = map_set ?k (mergeSession_p0b now e p) ?um"
        by (simp add: mergeStep_p0b_def)
      note e = some [OF Some]
      have eid: "visible_p0b.userId e = ?k"
        using ids map_of_SomeD [OF Some] by auto
      show ?thesis
        unfolding step um
      proof (intro conjI allI)
        show "distinct (map fst (map_set ?k (mergeSession_p0b now e p) ?um))"
          using d by (rule distinct_map_set)
        show "\<forall>x \<in> set (map_set ?k (mergeSession_p0b now e p) ?um).
                visible_p0b.userId (snd x) = fst x"
          using ids eid by (auto dest!: in_map_set_cases simp: mergeSession_p0b_def Let_def)
        fix uid
        show "case map_of (map_set ?k (mergeSession_p0b now e p) ?um) uid of
          None \<Rightarrow> uid = cur \<or> ?S uid (ps @ [p]) = []
        | Some v \<Rightarrow>
            uid \<noteq> cur \<and> ?S uid (ps @ [p]) \<noteq> []
            \<and> visible_p0b.isActive v
                = (\<exists>p \<in> set (?S uid (ps @ [p])). presence_p0b.isActive p)
            \<and> visible_p0b.isEditing v
                = (\<exists>p \<in> set (?S uid (ps @ [p])). presence_p0b.isEditing p)
            \<and> visible_p0b.timestamp v
                = Max (presence_p0b.timestamp ` set (?S uid (ps @ [p])))"
        proof (cases "uid = ?k")
          case True
          have S: "?S ?k (ps @ [p]) = ?S ?k ps @ [p]" by simp
          have "Max (presence_p0b.timestamp ` set (?S ?k ps @ [p]))
                  = max (Max (presence_p0b.timestamp ` set (?S ?k ps))) (presence_p0b.timestamp p)"
            using e by (intro Max_snoc_filter) simp
          with e True False show ?thesis
            unfolding True S
            by (auto simp: map_of_map_set mergeSession_p0b_def Let_def)
        next
          case neq: False
          then have S: "?S uid (ps @ [p]) = ?S uid ps" by auto
          show ?thesis
          proof (cases "map_of ?um uid")
            case None
            from none [OF None] show ?thesis
              using None neq S by (simp add: map_of_map_set)
          next
            case Some': (Some v)
            from some [OF Some'] show ?thesis
              using Some' neq S by (simp add: map_of_map_set)
          qed
        qed
      qed
    qed
  qed
qed






text \<open>The cleanup of the presence map keeps a session exactly when its age is at most
  the window: here a session whose age equals the window stays.\<close>

lemma presenceMap_updateVisibleUsers_p0b:
  "component_p0b.presenceMap (updateVisibleUsers_p0b now st) = component_p0b.presenceMap st"
  by (simp add: updateVisibleUsers_p0b_def)

lemma cleanupStalePresence_p0b_removes:
  "component_p0b.presenceMap (fst (cleanupStalePresence_p0b now st))
     = filter (\<lambda>e. now - presence_p0b.timestamp (snd e)
                       \<le> presenceExpirationMinutes (component_p0b.settings st) * 60 * 1000)
         (component_p0b.presenceMap st)"
  by (auto simp: cleanupStalePresence_p0b_def Let_def presenceMap_updateVisibleUsers_p0b
        intro!: filter_cong)

subsection \<open>part_000, first component: fields the handler leaves unchanged\<close>

lemma handlePresenceEvent_p0a_fields:
  "component_p0a.currentUserId (fst (handlePresenceEvent_p0a visible p st))
     = component_p0a.currentUserId st"
  "component_p0a.recordId (fst (handlePresenceEvent_p0a visible p st)) = component_p0a.recordId st"
  "component_p0a.isActive (fst (handlePresenceEvent_p0a visible p st)) = component_p0a.isActive st"
  "component_p0a.settings (fst (handlePresenceEvent_p0a visible p st)) = component_p0a.settings st"
  by (simp_all add: handlePresenceEvent_p0a_def Let_def split: option.split)

subsection \<open>part_001: sweeps and the distinctness of user ids\<close>

lemma visibleUsers_filterExpiredUsers_p1:
  "component_p1.visibleUsers (filterExpiredUsers_p1 now st)
     = filter (retained_p1 (component_p1.presenceExpirationMs st) now) (component_p1.visibleUsers st)"
  by (simp add: filterExpiredUsers_p1_def)

lemma presenceExpirationMs_filterExpiredUsers_p1:
  "component_p1.presenceExpirationMs (filterExpiredUsers_p1 now st)
     = component_p1.presenceExpirationMs st"
  by (simp add: filterExpiredUsers_p1_def)

lemma distinct_map_removeAt: "distinct (map f xs) \<Longrightarrow> distinct (map f (removeAt i xs))"
proof -
  assume d: "distinct (map f xs)"
  have "map f xs = map f (take i xs) @ map f (drop i xs)"
    by (metis append_take_drop_id map_append)
  with d have 1: "distinct (map f (take i xs))"
      and 2: "set (map f (take i xs)) \<inter> set (map f (drop i xs)) = {}"
      and 3: "distinct (map f (drop i xs))"
    by (metis distinct_append)+
  have "set (drop (Suc i) xs) \<subseteq> set (drop i xs)"
    by (simp add: set_drop_subset_set_drop)
  moreover have "distinct (map f (drop (Suc i) xs))"
    using d by (metis distinct_drop drop_map)
  ultimately show ?thesis
    using 1 2 by (auto simp: removeAt_take_drop)
qed

lemma distinct_handlePresenceEvent_p1:
  assumes "distinct (map user_p1.userId (component_p1.visibleUsers st))"
  shows "distinct (map user_p1.userId
           (component_p1.visibleUsers (fst (handlePresenceEvent_p1 visible p st))))"
proof -
  let ?P = "\<lambda>u. user_p1.userId u = UserId__c p"
  let ?xs = "component_p1.visibleUsers st"
  show ?thesis
  proof (cases "findIndex ?P ?xs")
    case None
    then have "UserId__c p \<notin> set (map user_p1.userId ?xs)"
      by (auto simp: findIndex_None_iff)
    with assms None show ?thesis
      by (simp add: handlePresenceEvent_p1_def Let_def goneUser_p1_def newUser_p1_def)
  next
    case (Some i)
    have i: "i < length ?xs" using Some by (rule findIndex_Some_lt)
    have Pi: "user_p1.userId (?xs ! i) = UserId__c p"
      using findIndex_Some_nth [OF Some] .
    have rep: "map user_p1.userId (replaceAt i y ?xs) = map user_p1.userId ?xs"
      if "user_p1.userId y = UserId__c p" for y
      using i Pi that by (simp add: replaceAt_map_same)
    have rem: "distinct (map user_p1.userId (removeAt i ?xs))"
      using assms by (rule distinct_map_removeAt)
    show ?thesis
      using assms Some rep rem
      by (simp add: handlePresenceEvent_p1_def Let_def goneUser_p1_def newUser_p1_def)
  qed
qed

text \<open>The listed user ids stay distinct along every run of deliveries and sweeps (the
  list starts empty or as loaded from the server).\<close>

lemma distinct_run_p1:
  "distinct (map user_p1.userId (component_p1.visibleUsers st))
   \<Longrightarrow> distinct (map user_p1.userId (component_p1.visibleUsers (run_p1 steps st)))"
proof (induction steps st rule: run_p1.induct)
  case (1 st)
  then show ?case by simp
next
  case (2 visible p steps st)
  from distinct_handlePresenceEvent_p1 [OF "2.prems", of visible p] "2.IH"
  show ?case by simp
next
  case (3 now steps st)
  have "distinct (map user_p1.userId (component_p1.visibleUsers (filterExpiredUsers_p1 now st)))"
    using "3.prems" by (simp add: visibleUsers_filterExpiredUsers_p1 distinct_map_filter)
  with "3.IH" show ?case by simp
qed


lemma found_split:
  assumes "findIndex (\<lambda>u. f u = k) xs = Some i" and "distinct (map f xs)"
  shows "xs = take i xs @ xs ! i # drop (Suc i) xs"
    and "f (xs ! i) = k"
    and "\<forall>u \<in> set (take i xs). f u \<noteq> k"
    and "\<forall>u \<in> set (drop (Suc i) xs). f u \<noteq> k"
proof -
  have i: "i < length xs" using assms(1) by (rule findIndex_Some_lt)
  show s: "xs = take i xs @ xs ! i # drop (Suc i) xs"
    using i by (rule id_take_nth_drop)
  show k: "f (xs ! i) = k"
    using findIndex_Some_nth [OF assms(1)] .
  have "distinct (map f (take i xs) @ f (xs ! i) # map f (drop (Suc i) xs))"
    using assms(2) s by (metis list.simps(9) map_append)
  then have "f (xs ! i) \<notin> f ` set (take i xs)" "f (xs ! i) \<notin> f ` set (drop (Suc i) xs)"
    by auto
  with k show "\<forall>u \<in> set (take i xs). f u \<noteq> k" "\<forall>u \<in> set (drop (Suc i) xs). f u \<noteq> k"
    by (metis imageI)+
qed

lemma removeAt_found:
  assumes "findIndex (\<lambda>u. f u = k) xs = Some i" and "distinct (map f xs)"
  shows "removeAt i xs = filter (\<lambda>u. f u \<noteq> k) xs"
proof -
  note s = found_split [OF assms]
  have "filter (\<lambda>u. f u \<noteq> k) xs
          = filter (\<lambda>u. f u \<noteq> k) (take i xs @ xs ! i # drop (Suc i) xs)"
    using s(1) by simp
  also have "\<dots> = take i xs @ drop (Suc i) xs"
    using s(2-4) by (simp add: filter_id_conv)
  finally show ?thesis by (simp add: removeAt_take_drop)
qed

lemma replaceAt_found:
  assumes "findIndex (\<lambda>u. f u = k) xs = Some i" and "distinct (map f xs)"
  shows "replaceAt i y xs = map (\<lambda>u. if f u = k then y else u) xs"
proof -
  note s = found_split [OF assms]
  have "map (\<lambda>u. if f u = k then y else u) xs
          = map (\<lambda>u. if f u = k then y else u) (take i xs @ xs ! i # drop (Suc i) xs)"
    using s(1) by simp
  also have "\<dots> = take i xs @ y # drop (Suc i) xs"
    using s(2-4) by (simp add: map_idI)
  finally show ?thesis by (simp add: replaceAt_def)
qed

lemma not_found_filter:
  "findIndex (\<lambda>u. f u = k) xs = None \<Longrightarrow> filter (\<lambda>u. f u \<noteq> k) xs = xs"
  by (simp add: findIndex_None_iff filter_id_conv)

lemma found_iff_listed:
  "(findIndex (\<lambda>u. f u = k) xs = None) = (k \<notin> f ` set xs)"
  by (auto simp: findIndex_None_iff)

lemma visibleUsers_sweeps_p1:
  "component_p1.visibleUsers (sweeps_p1 nows st)
     = filter (\<lambda>u. \<forall>now \<in> set nows. retained_p1 (component_p1.presenceExpirationMs st) now u)
         (component_p1.visibleUsers st)"
proof (induction nows arbitrary: st)
  case Nil
  show ?case by simp
next
  case (Cons now nows)
  show ?case
    by (simp add: Cons.IH visibleUsers_filterExpiredUsers_p1
          presenceExpirationMs_filterExpiredUsers_p1 conj_commute)
qed

lemma presenceExpirationMs_sweeps_p1:
  "component_p1.presenceExpirationMs (sweeps_p1 nows st) = component_p1.presenceExpirationMs st"
  by (induction nows arbitrary: st) (simp_all add: presenceExpirationMs_filterExpiredUsers_p1)

lemma no_match_filter: "filter P zs = [] \<Longrightarrow> filter (\<lambda>u. \<not> P u) zs = zs"
  by (simp add: filter_empty_conv filter_id_conv)


lemma handlePresenceEvent_p1_gone:
  assumes other: "UserId__c p \<noteq> component_p1.currentUserId st"
    and cid: "component_p1.recordId st = Some (CaseId__c p)"
    and gone: "State__c p = ''gone''"
    and dist: "distinct (map user_p1.userId (component_p1.visibleUsers st))"
  shows "\<not> or_false (IsMobile__c p) \<Longrightarrow>
           fst (handlePresenceEvent_p1 visible p st)
             = st\<lparr> component_p1.visibleUsers :=
                    filter (\<lambda>u. user_p1.userId u \<noteq> UserId__c p)
                      (component_p1.visibleUsers st) \<rparr>"
    and "or_false (IsMobile__c p) \<Longrightarrow>
           fst (handlePresenceEvent_p1 visible p st)
             = st\<lparr> component_p1.visibleUsers :=
                    (if UserId__c p \<in> user_p1.userId ` set (component_p1.visibleUsers st)
                     then map (\<lambda>u. if user_p1.userId u = UserId__c p then goneUser_p1 p else u)
                            (component_p1.visibleUsers st)
                     else component_p1.visibleUsers st @ [goneUser_p1 p]) \<rparr>"
proof -
  let ?xs = "component_p1.visibleUsers st"
  let ?fi = "findIndex (\<lambda>u. user_p1.userId u = UserId__c p) ?xs"
  {
    assume normal: "\<not> or_false (IsMobile__c p)"
    show "fst (handlePresenceEvent_p1 visible p st)
             = st\<lparr> component_p1.visibleUsers :=
                    filter (\<lambda>u. user_p1.userId u \<noteq> UserId__c p) ?xs \<rparr>"
    proof (cases ?fi)
      case None
      from not_found_filter [of user_p1.userId "UserId__c p" ?xs, OF None] None
      show ?thesis
        using other cid gone normal by (simp add: handlePresenceEvent_p1_def)
    next
      case (Some i)
      from removeAt_found [of user_p1.userId "UserId__c p" ?xs, OF Some dist] Some
      show ?thesis
        using other cid gone normal by (simp add: handlePresenceEvent_p1_def Let_def)
    qed
  }
  {
    assume mobile: "or_false (IsMobile__c p)"
    show "fst (handlePresenceEvent_p1 visible p st)
             = st\<lparr> component_p1.visibleUsers :=
                    (if UserId__c p \<in> user_p1.userId ` set ?xs
                     then map (\<lambda>u. if user_p1.userId u = UserId__c p then goneUser_p1 p else u) ?xs
                     else ?xs @ [goneUser_p1 p]) \<rparr>"
    proof (cases ?fi)
      case None
      then have "UserId__c p \<notin> user_p1.userId ` set ?xs"
        by (simp add: found_iff_listed)
      with None show ?thesis
        using other cid gone mobile by (simp add: handlePresenceEvent_p1_def)
    next
      case (Some i)
      then have "UserId__c p \<in> user_p1.userId ` set ?xs"
        using found_iff_listed [of user_p1.userId "UserId__c p" ?xs] by simp
      with Some
        replaceAt_found [of user_p1.userId "UserId__c p" ?xs i "goneUser_p1 p", OF Some dist]
      show ?thesis
        using other cid gone mobile by (simp add: handlePresenceEvent_p1_def Let_def)
    qed
  }
qed

lemma gone_record_split:
  assumes "distinct (map user_p1.userId xs)"
    and "ys = (if UserId__c p \<in> user_p1.userId ` set xs
               then map (\<lambda>u. if user_p1.userId u = UserId__c p then goneUser_p1 p else u) xs
               else xs @ [goneUser_p1 p])"
  shows "filter (\<lambda>u. user_p1.userId u = UserId__c p) ys = [goneUser_p1 p]"
    and "filter (\<lambda>u. user_p1.userId u \<noteq> UserId__c p) ys
           = filter (\<lambda>u. user_p1.userId u \<noteq> UserId__c p) xs"
proof -
  let ?k = "UserId__c p"
  let ?g = "goneUser_p1 p"
  have g: "user_p1.userId ?g = ?k" by (simp add: goneUser_p1_def)
  have m1: "filter (\<lambda>u. user_p1.userId u = ?k)
              (map (\<lambda>u. if user_p1.userId u = ?k then ?g else u) zs)
            = map (\<lambda>u. ?g) (filter (\<lambda>u. user_p1.userId u = ?k) zs)" for zs
    using g by (induction zs) auto
  have m2: "filter (\<lambda>u. user_p1.userId u \<noteq> ?k)
              (map (\<lambda>u. if user_p1.userId u = ?k then ?g else u) zs)
            = filter (\<lambda>u. user_p1.userId u \<noteq> ?k) zs" for zs
    using g by (induction zs) auto
  have one: "length (filter (\<lambda>u. user_p1.userId u = ?k) zs) = 1"
    if "distinct (map user_p1.userId zs)" "?k \<in> user_p1.userId ` set zs" for zs
    using that
  proof (induction zs)
    case Nil
    then show ?case by simp
  next
    case (Cons z zs)
    show ?case
    proof (cases "user_p1.userId z = ?k")
      case True
      with Cons.prems(1) have "\<forall>u \<in> set zs. user_p1.userId u \<noteq> ?k"
        by (metis distinct.simps(2) imageI list.simps(9) list.set_map)
      then have "filter (\<lambda>u. user_p1.userId u = ?k) zs = []"
        by (simp add: filter_empty_conv)
      with True show ?thesis by simp
    next
      case False
      with Cons show ?thesis by auto
    qed
  qed
  show "filter (\<lambda>u. user_p1.userId u = ?k) ys = [?g]"
  proof (cases "?k \<in> user_p1.userId ` set xs")
    case True
    from one [OF assms(1) True] obtain z where
      "filter (\<lambda>u. user_p1.userId u = ?k) xs = [z]"
      by (cases "filter (\<lambda>u. user_p1.userId u = ?k) xs") auto
    with True assms(2) show ?thesis by (simp add: m1)
  next
    case False
    then have "\<forall>u \<in> set xs. user_p1.userId u \<noteq> ?k"
      by (metis imageI)
    then have "filter (\<lambda>u. user_p1.userId u = ?k) xs = []"
      by (simp add: filter_empty_conv)
    with False assms(2) g show ?thesis by simp
  qed
  show "filter (\<lambda>u. user_p1.userId u \<noteq> ?k) ys = filter (\<lambda>u. user_p1.userId u \<noteq> ?k) xs"
    using assms(2) g by (simp add: m2)
qed
subsection \<open>part_001: fields the handler leaves unchanged\<close>

lemma handlePresenceEvent_p1_fields:
  "component_p1.currentUserId (fst (handlePresenceEvent_p1 visible p st))
     = component_p1.currentUserId st"
  "component_p1.recordId (fst (handlePresenceEvent_p1 visible p st)) = component_p1.recordId st"
  "component_p1.isActive (fst (handlePresenceEvent_p1 visible p st)) = component_p1.isActive st"
  "component_p1.settings (fst (handlePresenceEvent_p1 visible p st)) = component_p1.settings st"
  by (simp_all add: handlePresenceEvent_p1_def Let_def split: option.split)

subsection \<open>Toasts and the visibility gate (part_000, part_001)\<close>

lemma no_toast_when_closed_p0a:
  "\<not> (component_p0a.isActive st \<and> visible) \<Longrightarrow> snd (handlePresenceEvent_p0a visible p st) = []"
  by (auto simp: handlePresenceEvent_p0a_def Let_def split: option.split)

lemma no_toast_when_hidden_p1:
  "\<not> visible \<Longrightarrow> snd (handlePresenceEvent_p1 visible p st) = []"
  by (simp add: handlePresenceEvent_p1_def Let_def split: option.split)

lemma state_ignores_visibility_p0a:
  "fst (handlePresenceEvent_p0a visible p st) = fst (handlePresenceEvent_p0a visible' p st)"
  by (simp add: handlePresenceEvent_p0a_def Let_def split: option.split)

lemma state_ignores_visibility_p1:
  "fst (handlePresenceEvent_p1 visible p st) = fst (handlePresenceEvent_p1 visible' p st)"
  by (simp add: handlePresenceEvent_p1_def Let_def split: option.split)

lemma state_ignores_isActive_p0a:
  "fst (handlePresenceEvent_p0a visible p (st\<lparr> component_p0a.isActive := b \<rparr>))
     = (fst (handlePresenceEvent_p0a visible p st))\<lparr> component_p0a.isActive := b \<rparr>"
  by (simp add: handlePresenceEvent_p0a_def Let_def split: option.split)

lemma deliver_p0a_Cons:
  "deliver_p0a (e # evs) st =
     (fst (deliver_p0a evs (fst (handlePresenceEvent_p0a (fst e) (snd e) st))),
      snd (handlePresenceEvent_p0a (fst e) (snd e) st)
        @ snd (deliver_p0a evs (fst (handlePresenceEvent_p0a (fst e) (snd e) st))))"
  by (cases e) (simp add: split_beta)

lemma deliver_p1_Cons:
  "deliver_p1 (e # evs) st =
     (fst (deliver_p1 evs (fst (handlePresenceEvent_p1 (fst e) (snd e) st))),
      snd (handlePresenceEvent_p1 (fst e) (snd e) st)
        @ snd (deliver_p1 evs (fst (handlePresenceEvent_p1 (fst e) (snd e) st))))"
  by (cases e) (simp add: split_beta)

lemma deliver_p0a_append:
  "deliver_p0a (xs @ ys) st =
     (fst (deliver_p0a ys (fst (deliver_p0a xs st))),
      snd (deliver_p0a xs st) @ snd (deliver_p0a ys (fst (deliver_p0a xs st))))"
  by (induction xs arbitrary: st) (simp_all add: deliver_p0a_Cons)

lemma deliver_p1_append:
  "deliver_p1 (xs @ ys) st =
     (fst (deliver_p1 ys (fst (deliver_p1 xs st))),
      snd (deliver_p1 xs st) @ snd (deliver_p1 ys (fst (deliver_p1 xs st))))"
  by (induction xs arbitrary: st) (simp_all add: deliver_p1_Cons)

lemma deliver_p0a_hidden:
  "\<forall>e \<in> set evs. \<not> fst e \<Longrightarrow> snd (deliver_p0a evs st) = []"
  by (induction evs arbitrary: st) (simp_all add: deliver_p0a_Cons no_toast_when_closed_p0a)

lemma deliver_p1_hidden:
  "\<forall>e \<in> set evs. \<not> fst e \<Longrightarrow> snd (deliver_p1 evs st) = []"
  by (induction evs arbitrary: st) (simp_all add: deliver_p1_Cons no_toast_when_hidden_p1)

lemma deliver_p0a_shown:
  "fst (deliver_p0a (map (\<lambda>e. (True, snd e)) evs) st) = fst (deliver_p0a evs st)"
proof (induction evs arbitrary: st)
  case Nil
  show ?case by simp
next
  case (Cons e evs)
  obtain v p where e: "e = (v, p)" by (cases e)
  show ?case
    using Cons.IH state_ignores_visibility_p0a [of True p st v]
    by (simp add: e split_beta)
qed

lemma deliver_p1_shown:
  "fst (deliver_p1 (map (\<lambda>e. (True, snd e)) evs) st) = fst (deliver_p1 evs st)"
proof (induction evs arbitrary: st)
  case Nil
  show ?case by simp
next
  case (Cons e evs)
  obtain v p where e: "e = (v, p)" by (cases e)
  show ?case
    using Cons.IH state_ignores_visibility_p1 [of True p st v]
    by (simp add: e split_beta)
qed

lemma isActive_handlePresenceEvent_p0a:
  "component_p0a.isActive (fst (handlePresenceEvent_p0a visible p st)) = component_p0a.isActive st"
  by (simp add: handlePresenceEvent_p0a_def Let_def split: option.split)

lemma deliver_p0a_idle:
  "\<not> component_p0a.isActive st \<Longrightarrow> snd (deliver_p0a evs st) = []"
proof (induction evs arbitrary: st)
  case Nil
  show ?case by simp
next
  case (Cons e evs)
  obtain v p where e: "e = (v, p)" by (cases e)
  have "\<not> component_p0a.isActive (fst (handlePresenceEvent_p0a v p st))"
    using Cons.prems by (simp add: isActive_handlePresenceEvent_p0a)
  from Cons.IH [OF this] Cons.prems show ?case
    by (simp add: e split_beta no_toast_when_closed_p0a)
qed

lemma deliver_p0a_isActive:
  "fst (deliver_p0a evs (st\<lparr> component_p0a.isActive := b \<rparr>))
     = (fst (deliver_p0a evs st))\<lparr> component_p0a.isActive := b \<rparr>"
proof (induction evs arbitrary: st)
  case Nil
  show ?case by simp
next
  case (Cons e evs)
  obtain v p where e: "e = (v, p)" by (cases e)
  show ?case
    using Cons.IH by (simp add: e split_beta state_ignores_isActive_p0a)
qed

subsection \<open>part_000: publishing a state change\<close>

lemma publishStateChange_p0a_guard:
  "component_p0a.recordId st = None \<or> component_p0a.recordId st = Some []
     \<or> \<not> component_p0a.isComponentActive st
   \<Longrightarrow> publishStateChange_p0a result newState st = (st, [])"
  by (auto simp: publishStateChange_p0a_def split: option.split)

lemma publishStateChange_p0a_same:
  assumes "Some newState = component_p0a.currentState st"
    and "component_p0a.lastPublishedDraftStatus st = component_p0a.hasDrafts st"
  shows "publishStateChange_p0a result newState st = (st, [])"
  using assms by (simp add: publishStateChange_p0a_def split: option.split)

lemma publishStateChange_p0a_changed:
  assumes "component_p0a.recordId st = Some rid" "rid \<noteq> []"
    and "component_p0a.isComponentActive st"
    and "\<not> (Some newState = component_p0a.currentState st
            \<and> component_p0a.lastPublishedDraftStatus st = component_p0a.hasDrafts st)"
  shows "publishStateChange_p0a result newState st =
    (st\<lparr> component_p0a.currentState := Some newState,
         component_p0a.lastPublishedDraftStatus := component_p0a.hasDrafts st \<rparr>,
     [(\<lparr> publishPresence_params.caseId = rid,
          publishPresence_params.sessionId = None,
          publishPresence_params.state = newState,
          publishPresence_params.hasDraft = Some (component_p0a.hasDrafts st),
          publishPresence_params.isActive = None,
          publishPresence_params.callType = Some ''heartbeat'',
          publishPresence_params.isMobile = None \<rparr>, result)])"
  using assms by (auto simp: publishStateChange_p0a_def)

lemma recorded_p0a_step:
  assumes "recorded_p0a st trace"
  shows "recorded_p0a (fst (publishStateChange_p0a result newState st))
           (trace @ snd (publishStateChange_p0a result newState st))"
proof (cases "snd (publishStateChange_p0a result newState st) = []")
  case True
  then have "fst (publishStateChange_p0a result newState st) = st"
    by (auto simp: publishStateChange_p0a_def split: option.splits if_splits)
  with True assms show ?thesis by simp
next
  case False
  then show ?thesis
    by (auto simp: publishStateChange_p0a_def recorded_p0a_def split: option.splits if_splits)
qed

lemma recorded_p0a_hasDrafts:
  "recorded_p0a (st\<lparr> component_p0a.hasDrafts := d \<rparr>) trace = recorded_p0a st trace"
  by (simp add: recorded_p0a_def)

subsection \<open>The current user in the list of visible users\<close>

lemma in_set_replaceAtD: "y \<in> set (replaceAt i x xs) \<Longrightarrow> y = x \<or> y \<in> set xs"
  by (auto simp: replaceAt_def dest: in_set_takeD in_set_dropD)

lemma in_set_removeAtD: "y \<in> set (removeAt i xs) \<Longrightarrow> y \<in> set xs"
  using set_removeAt_subset by fastforce

lemma own_user_absent_handlePresenceEvent_p0a:
  assumes "component_p0a.currentUserId st \<notin> user_p0a.userId ` set (component_p0a.visibleUsers st)"
  shows "component_p0a.currentUserId st
           \<notin> user_p0a.userId ` set (component_p0a.visibleUsers (fst (handlePresenceEvent_p0a visible p st)))"
proof (cases "UserId__c p = component_p0a.currentUserId st")
  case True
  with assms show ?thesis by (simp add: handlePresenceEvent_p0a_def)
next
  case False
  then have new: "user_p0a.userId (newUser_p0a p) \<noteq> component_p0a.currentUserId st"
    by (simp add: newUser_p0a_def)
  have "set (component_p0a.visibleUsers (fst (handlePresenceEvent_p0a visible p st)))
          \<subseteq> insert (newUser_p0a p) (set (component_p0a.visibleUsers st))"
    by (auto simp: handlePresenceEvent_p0a_def Let_def split: option.split
          dest: in_set_replaceAtD in_set_removeAtD)
  with assms new show ?thesis by force
qed

lemma own_user_absent_handlePresenceEvent_p1:
  assumes "component_p1.currentUserId st \<notin> user_p1.userId ` set (component_p1.visibleUsers st)"
  shows "component_p1.currentUserId st
           \<notin> user_p1.userId ` set (component_p1.visibleUsers (fst (handlePresenceEvent_p1 visible p st)))"
proof (cases "UserId__c p = component_p1.currentUserId st")
  case True
  with assms show ?thesis by (simp add: handlePresenceEvent_p1_def)
next
  case False
  then have new: "user_p1.userId (newUser_p1 p) \<noteq> component_p1.currentUserId st"
      "user_p1.userId (goneUser_p1 p) \<noteq> component_p1.currentUserId st"
    by (simp_all add: newUser_p1_def goneUser_p1_def)
  have "set (component_p1.visibleUsers (fst (handlePresenceEvent_p1 visible p st)))
          \<subseteq> insert (newUser_p1 p) (insert (goneUser_p1 p) (set (component_p1.visibleUsers st)))"
    by (auto simp: handlePresenceEvent_p1_def Let_def split: option.split
          dest: in_set_replaceAtD in_set_removeAtD)
  with assms new show ?thesis by force
qed

lemma currentUserId_filterExpiredUsers:
  "component_p0a.currentUserId (filterExpiredUsers_p0a now st0) = component_p0a.currentUserId st0"
  "component_p1.currentUserId (filterExpiredUsers_p1 now st1) = component_p1.currentUserId st1"
  by (simp_all add: filterExpiredUsers_p0a_def filterExpiredUsers_p1_def)

lemma currentUserId_handlePresenceEvent_p0a:
  "component_p0a.currentUserId (fst (handlePresenceEvent_p0a visible p st))
     = component_p0a.currentUserId st"
  by (simp add: handlePresenceEvent_p0a_def Let_def split: option.split)

lemma own_user_absent_run_p0a:
  "component_p0a.currentUserId st \<notin> user_p0a.userId ` set (component_p0a.visibleUsers st)
   \<Longrightarrow> component_p0a.currentUserId (run_p0a steps st) = component_p0a.currentUserId st
       \<and> component_p0a.currentUserId st
           \<notin> user_p0a.userId ` set (component_p0a.visibleUsers (run_p0a steps st))"
proof (induction steps st rule: run_p0a.induct)
  case (1 st)
  then show ?case by simp
next
  case (2 visible p steps st)
  from own_user_absent_handlePresenceEvent_p0a [OF "2.prems", of visible p] "2.IH"
  show ?case by (simp add: currentUserId_handlePresenceEvent_p0a)
next
  case (3 now steps st)
  have "component_p0a.currentUserId (filterExpiredUsers_p0a now st)
          \<notin> user_p0a.userId ` set (component_p0a.visibleUsers (filterExpiredUsers_p0a now st))"
    using "3.prems" by (auto simp: filterExpiredUsers_p0a_def)
  with "3.IH" show ?case by (simp add: currentUserId_filterExpiredUsers)
qed

lemma own_user_absent_run_p1:
  "component_p1.currentUserId st \<notin> user_p1.userId ` set (component_p1.visibleUsers st)
   \<Longrightarrow> component_p1.currentUserId (run_p1 steps st) = component_p1.currentUserId st
       \<and> component_p1.currentUserId st
           \<notin> user_p1.userId ` set (component_p1.visibleUsers (run_p1 steps st))"
proof (induction steps st rule: run_p1.induct)
  case (1 st)
  then show ?case by simp
next
  case (2 visible p steps st)
  from own_user_absent_handlePresenceEvent_p1 [OF "2.prems", of visible p] "2.IH"
  show ?case by (simp add: handlePresenceEvent_p1_fields)
next
  case (3 now steps st)
  have "component_p1.currentUserId (filterExpiredUsers_p1 now st)
          \<notin> user_p1.userId ` set (component_p1.visibleUsers (filterExpiredUsers_p1 now st))"
    using "3.prems" by (auto simp: filterExpiredUsers_p1_def)
  with "3.IH" show ?case by (simp add: currentUserId_filterExpiredUsers)
qed

lemma own_user_absent_updateVisibleUsers_p0b:
  "component_p0b.currentUserId st
     \<notin> visible_p0b.userId ` set (component_p0b.visibleUsers (updateVisibleUsers_p0b now st))"
proof -
  let ?cur = "component_p0b.currentUserId st"
  let ?um = "foldl (mergeStep_p0b now ?cur) [] (map snd (component_p0b.presenceMap st))"
  note inv = merge_invariant [of now ?cur "map snd (component_p0b.presenceMap st)"]
  from inv have ids: "\<forall>e \<in> set ?um. visible_p0b.userId (snd e) = fst e" by blast
  from inv have "case map_of ?um ?cur of None \<Rightarrow> True | Some v \<Rightarrow> ?cur \<noteq> ?cur"
    by (auto split: option.splits)
  then have "map_of ?um ?cur = None" by (cases "map_of ?um ?cur") simp_all
  then have "?cur \<notin> fst ` set ?um" by (simp add: map_of_eq_None_iff)
  with ids have "?cur \<notin> visible_p0b.userId ` set (map snd ?um)" by force
  then show ?thesis
    by (simp add: updateVisibleUsers_p0b_def mergedUsers_p0b_def set_array_sort)
qed


lemma currentUserId_updateVisibleUsers_p0b:
  "component_p0b.currentUserId (updateVisibleUsers_p0b now st) = component_p0b.currentUserId st"
  by (simp add: updateVisibleUsers_p0b_def)

lemma own_user_absent_ops_p0b:
  assumes "component_p0b.currentUserId st
             \<notin> visible_p0b.userId ` set (component_p0b.visibleUsers st)"
  shows "component_p0b.currentUserId st \<notin> visible_p0b.userId `
           set (component_p0b.visibleUsers (fst (handlePresenceEvent_p0b now p st)))"
    and "component_p0b.currentUserId st \<notin> visible_p0b.userId `
           set (component_p0b.visibleUsers (checkForDrafts_p0b now drafts st))"
    and "component_p0b.currentUserId st \<notin> visible_p0b.userId `
           set (component_p0b.visibleUsers (fst (cleanupStalePresence_p0b now st)))"
proof -
  have upd: "component_p0b.currentUserId st \<notin> visible_p0b.userId `
           set (component_p0b.visibleUsers
             (updateVisibleUsers_p0b now (st\<lparr> component_p0b.presenceMap := m \<rparr>)))" for m
    using own_user_absent_updateVisibleUsers_p0b
      [of "st\<lparr> component_p0b.presenceMap := m \<rparr>" now]
    by simp
  show "component_p0b.currentUserId st \<notin> visible_p0b.userId `
           set (component_p0b.visibleUsers (fst (handlePresenceEvent_p0b now p st)))"
    using assms upd
    by (simp add: handlePresenceEvent_p0b_def Let_def split: option.split)
  show "component_p0b.currentUserId st \<notin> visible_p0b.userId `
           set (component_p0b.visibleUsers (checkForDrafts_p0b now drafts st))"
    using upd by (simp add: checkForDrafts_p0b_def)
  show "component_p0b.currentUserId st \<notin> visible_p0b.userId `
           set (component_p0b.visibleUsers (fst (cleanupStalePresence_p0b now st)))"
    using assms upd by (simp add: cleanupStalePresence_p0b_def Let_def)
qed

lemma own_listed_updateOwnPresence_p2:
  "component_p2.currentUserId st
     \<in> user_p2.userId ` set (component_p2.visibleUsers (updateOwnPresence_p2 now st_name st))"
proof -
  have own: "user_p2.userId (ownUser_p2 now st_name st) = component_p2.currentUserId st"
    by (simp add: ownUser_p2_def)
  have "ownUser_p2 now st_name st
          \<in> set (component_p2.visibleUsers (updateOwnPresence_p2 now st_name st))"
    by (simp add: updateOwnPresence_p2_def Let_def nth_mem_replaceAt findIndex_Some_lt
          split: option.split)
  with own show ?thesis by (metis imageI)
qed

subsection \<open>Accepted events: the record written and the records left alone\<close>

lemma replaceAt_Cons:
  "replaceAt 0 y (x # xs) = y # xs"
  "replaceAt (Suc i) y (x # xs) = x # replaceAt i y xs"
  by (simp_all add: replaceAt_def)

lemma upsert_Cons:
  "(case findIndex (\<lambda>r. f r = k) (x # xs) of
      Some i \<Rightarrow> replaceAt i y (x # xs) | None \<Rightarrow> (x # xs) @ [y])
   = (if f x = k then y # xs
      else x # (case findIndex (\<lambda>r. f r = k) xs of
                  Some i \<Rightarrow> replaceAt i y xs | None \<Rightarrow> xs @ [y]))"
  by (simp add: replaceAt_Cons split: option.split)

lemma upsert_filter:
  assumes "f y = k"
  shows "filter (\<lambda>r. f r = u)
           (case findIndex (\<lambda>r. f r = k) xs of
              Some i \<Rightarrow> replaceAt i y xs | None \<Rightarrow> xs @ [y])
         = (if u = k then y # tl (filter (\<lambda>r. f r = k) xs) else filter (\<lambda>r. f r = u) xs)"
proof (induction xs)
  case Nil
  with assms show ?case by auto
next
  case (Cons x xs)
  with assms show ?case unfolding upsert_Cons by auto
qed

lemma upsert_keys:
  assumes "f y = k"
  shows "map f (case findIndex (\<lambda>r. f r = k) xs of
                  Some i \<Rightarrow> replaceAt i y xs | None \<Rightarrow> xs @ [y])
         = (if k \<in> set (map f xs) then map f xs else map f xs @ [k])"
proof (induction xs)
  case Nil
  with assms show ?case by simp
next
  case (Cons x xs)
  with assms show ?case unfolding upsert_Cons by auto
qed

lemma handlePresenceEvent_p0a_accepted:
  assumes "UserId__c p \<noteq> component_p0a.currentUserId st"
    and "component_p0a.recordId st = Some (CaseId__c p)"
    and "State__c p \<noteq> ''gone''"
  shows "fst (handlePresenceEvent_p0a visible p st)
         = st\<lparr> component_p0a.visibleUsers :=
              (case findIndex (\<lambda>r. user_p0a.userId r = UserId__c p) (component_p0a.visibleUsers st) of
                 Some i \<Rightarrow> replaceAt i (newUser_p0a p) (component_p0a.visibleUsers st)
               | None \<Rightarrow> component_p0a.visibleUsers st @ [newUser_p0a p]) \<rparr>"
  using assms by (simp add: handlePresenceEvent_p0a_def Let_def split: option.split)

lemma handlePresenceEvent_p1_accepted:
  assumes "UserId__c p \<noteq> component_p1.currentUserId st"
    and "component_p1.recordId st = Some (CaseId__c p)"
    and "State__c p \<noteq> ''gone''"
  shows "fst (handlePresenceEvent_p1 visible p st)
         = st\<lparr> component_p1.visibleUsers :=
              (case findIndex (\<lambda>r. user_p1.userId r = UserId__c p) (component_p1.visibleUsers st) of
                 Some i \<Rightarrow> replaceAt i (newUser_p1 p) (component_p1.visibleUsers st)
               | None \<Rightarrow> component_p1.visibleUsers st @ [newUser_p1 p]) \<rparr>"
  using assms by (simp add: handlePresenceEvent_p1_def Let_def split: option.split)


lemma deliver_p0a_filter:
  assumes "\<forall>e \<in> set evs. State__c (snd e) \<noteq> ''gone''
             \<and> component_p0a.recordId st = Some (CaseId__c (snd e))
             \<and> UserId__c (snd e) \<noteq> component_p0a.currentUserId st"
  shows "filter (\<lambda>r. user_p0a.userId r = u)
           (component_p0a.visibleUsers (fst (deliver_p0a evs st)))
         = (if filter (\<lambda>e. UserId__c (snd e) = u) evs = []
            then filter (\<lambda>r. user_p0a.userId r = u) (component_p0a.visibleUsers st)
            else newUser_p0a (snd (last (filter (\<lambda>e. UserId__c (snd e) = u) evs)))
                 # tl (filter (\<lambda>r. user_p0a.userId r = u) (component_p0a.visibleUsers st)))"
  using assms
proof (induction evs arbitrary: st)
  case Nil
  show ?case by simp
next
  case (Cons e evs)
  let ?p = "snd e"
  let ?st' = "fst (handlePresenceEvent_p0a (fst e) ?p st)"
  have h: "UserId__c ?p \<noteq> component_p0a.currentUserId st"
      "component_p0a.recordId st = Some (CaseId__c ?p)" "State__c ?p \<noteq> ''gone''"
    using Cons.prems by simp_all
  note st' = handlePresenceEvent_p0a_accepted [OF h, of "fst e"]
  have k: "user_p0a.userId (newUser_p0a ?p) = UserId__c ?p"
    by (simp add: newUser_p0a_def)
  have rest: "\<forall>e \<in> set evs. State__c (snd e) \<noteq> ''gone''
             \<and> component_p0a.recordId ?st' = Some (CaseId__c (snd e))
             \<and> UserId__c (snd e) \<noteq> component_p0a.currentUserId ?st'"
    using Cons.prems by (auto simp: handlePresenceEvent_p0a_fields)
  show ?case
    unfolding deliver_p0a_Cons fst_conv Cons.IH [OF rest]
    unfolding st' by (simp add: upsert_filter [where f = user_p0a.userId and y = "newUser_p0a ?p", OF k])
qed

lemma deliver_p0a_keys:
  assumes "\<forall>e \<in> set evs. State__c (snd e) \<noteq> ''gone''
             \<and> component_p0a.recordId st = Some (CaseId__c (snd e))
             \<and> UserId__c (snd e) \<noteq> component_p0a.currentUserId st"
  shows "map user_p0a.userId (component_p0a.visibleUsers (fst (deliver_p0a evs st)))
         = foldl (\<lambda>ids k. if k \<in> set ids then ids else ids @ [k])
             (map user_p0a.userId (component_p0a.visibleUsers st))
             (map (\<lambda>e. UserId__c (snd e)) evs)"
  using assms
proof (induction evs arbitrary: st)
  case Nil
  show ?case by simp
next
  case (Cons e evs)
  let ?p = "snd e"
  let ?st' = "fst (handlePresenceEvent_p0a (fst e) ?p st)"
  have h: "UserId__c ?p \<noteq> component_p0a.currentUserId st"
      "component_p0a.recordId st = Some (CaseId__c ?p)" "State__c ?p \<noteq> ''gone''"
    using Cons.prems by simp_all
  note st' = handlePresenceEvent_p0a_accepted [OF h, of "fst e"]
  have k: "user_p0a.userId (newUser_p0a ?p) = UserId__c ?p"
    by (simp add: newUser_p0a_def)
  have rest: "\<forall>e \<in> set evs. State__c (snd e) \<noteq> ''gone''
             \<and> component_p0a.recordId ?st' = Some (CaseId__c (snd e))
             \<and> UserId__c (snd e) \<noteq> component_p0a.currentUserId ?st'"
    using Cons.prems by (auto simp: handlePresenceEvent_p0a_fields)
  show ?case
    unfolding deliver_p0a_Cons fst_conv Cons.IH [OF rest]
    unfolding st' by (simp add: upsert_keys [where f = user_p0a.userId and y = "newUser_p0a ?p", OF k])
qed

lemma deliver_p0a_frame:
  assumes "\<forall>e \<in> set evs. State__c (snd e) \<noteq> ''gone''
             \<and> component_p0a.recordId st = Some (CaseId__c (snd e))
             \<and> UserId__c (snd e) \<noteq> component_p0a.currentUserId st"
  shows "(fst (deliver_p0a evs st))\<lparr> component_p0a.visibleUsers := xs \<rparr>
         = st\<lparr> component_p0a.visibleUsers := xs \<rparr>"
  using assms
proof (induction evs arbitrary: st)
  case Nil
  show ?case by simp
next
  case (Cons e evs)
  let ?p = "snd e"
  let ?st' = "fst (handlePresenceEvent_p0a (fst e) ?p st)"
  have h: "UserId__c ?p \<noteq> component_p0a.currentUserId st"
      "component_p0a.recordId st = Some (CaseId__c ?p)" "State__c ?p \<noteq> ''gone''"
    using Cons.prems by simp_all
  note st' = handlePresenceEvent_p0a_accepted [OF h, of "fst e"]
  have rest: "\<forall>e \<in> set evs. State__c (snd e) \<noteq> ''gone''
             \<and> component_p0a.recordId ?st' = Some (CaseId__c (snd e))
             \<and> UserId__c (snd e) \<noteq> component_p0a.currentUserId ?st'"
    using Cons.prems by (auto simp: handlePresenceEvent_p0a_fields)
  show ?case
    unfolding deliver_p0a_Cons fst_conv Cons.IH [OF rest]
    unfolding st' by simp
qed

lemma deliver_p1_filter:
  assumes "\<forall>e \<in> set evs. State__c (snd e) \<noteq> ''gone''
             \<and> component_p1.recordId st = Some (CaseId__c (snd e))
             \<and> UserId__c (snd e) \<noteq> component_p1.currentUserId st"
  shows "filter (\<lambda>r. user_p1.userId r = u)
           (component_p1.visibleUsers (fst (deliver_p1 evs st)))
         = (if filter (\<lambda>e. UserId__c (snd e) = u) evs = []
            then filter (\<lambda>r. user_p1.userId r = u) (component_p1.visibleUsers st)
            else newUser_p1 (snd (last (filter (\<lambda>e. UserId__c (snd e) = u) evs)))
                 # tl (filter (\<lambda>r. user_p1.userId r = u) (component_p1.visibleUsers st)))"
  using assms
proof (induction evs arbitrary: st)
  case Nil
  show ?case by simp
next
  case (Cons e evs)
  let ?p = "snd e"
  let ?st' = "fst (handlePresenceEvent_p1 (fst e) ?p st)"
  have h: "UserId__c ?p \<noteq> component_p1.currentUserId st"
      "component_p1.recordId st = Some (CaseId__c ?p)" "State__c ?p \<noteq> ''gone''"
    using Cons.prems by simp_all
  note st' = handlePresenceEvent_p1_accepted [OF h, of "fst e"]
  have k: "user_p1.userId (newUser_p1 ?p) = UserId__c ?p"
    by (simp add: newUser_p1_def)
  have rest: "\<forall>e \<in> set evs. State__c (snd e) \<noteq> ''gone''
             \<and> component_p1.recordId ?st' = Some (CaseId__c (snd e))
             \<and> UserId__c (snd e) \<noteq> component_p1.currentUserId ?st'"
    using Cons.prems by (auto simp: handlePresenceEvent_p1_fields)
  show ?case
    unfolding deliver_p1_Cons fst_conv Cons.IH [OF rest]
    unfolding st' by (simp add: upsert_filter [where f = user_p1.userId and y = "newUser_p1 ?p", OF k])
qed

lemma deliver_p1_keys:
  assumes "\<forall>e \<in> set evs. State__c (snd e) \<noteq> ''gone''
             \<and> component_p1.recordId st = Some (CaseId__c (snd e))
             \<and> UserId__c (snd e) \<noteq> component_p1.currentUserId st"
  shows "map user_p1.userId (component_p1.visibleUsers (fst (deliver_p1 evs st)))
         = foldl (\<lambda>ids k. if k \<in> set ids then ids else ids @ [k])
             (map user_p1.userId (component_p1.visibleUsers st))
             (map (\<lambda>e. UserId__c (snd e)) evs)"
  using assms
proof (induction evs arbitrary: st)
  case Nil
  show ?case by simp
next
  case (Cons e evs)
  let ?p = "snd e"
  let ?st' = "fst (handlePresenceEvent_p1 (fst e) ?p st)"
  have h: "UserId__c ?p \<noteq> component_p1.currentUserId st"
      "component_p1.recordId st = Some (CaseId__c ?p)" "State__c ?p \<noteq> ''gone''"
    using Cons.prems by simp_all
  note st' = handlePresenceEvent_p1_accepted [OF h, of "fst e"]
  have k: "user_p1.userId (newUser_p1 ?p) = UserId__c ?p"
    by (simp add: newUser_p1_def)
  have rest: "\<forall>e \<in> set evs. State__c (snd e) \<noteq> ''gone''
             \<and> component_p1.recordId ?st' = Some (CaseId__c (snd e))
             \<and> UserId__c (snd e) \<noteq> component_p1.currentUserId ?st'"
    using Cons.prems by (auto simp: handlePresenceEvent_p1_fields)
  show ?case
    unfolding deliver_p1_Cons fst_conv Cons.IH [OF rest]
    unfolding st' by (simp add: upsert_keys [where f = user_p1.userId and y = "newUser_p1 ?p", OF k])
qed

lemma deliver_p1_frame:
  assumes "\<forall>e \<in> set evs. State__c (snd e) \<noteq> ''gone''
             \<and> component_p1.recordId st = Some (CaseId__c (snd e))
             \<and> UserId__c (snd e) \<noteq> component_p1.currentUserId st"
  shows "(fst (deliver_p1 evs st))\<lparr> component_p1.visibleUsers := xs \<rparr>
         = st\<lparr> component_p1.visibleUsers := xs \<rparr>"
  using assms
proof (induction evs arbitrary: st)
  case Nil
  show ?case by simp
next
  case (Cons e evs)
  let ?p = "snd e"
  let ?st' = "fst (handlePresenceEvent_p1 (fst e) ?p st)"
  have h: "UserId__c ?p \<noteq> component_p1.currentUserId st"
      "component_p1.recordId st = Some (CaseId__c ?p)" "State__c ?p \<noteq> ''gone''"
    using Cons.prems by simp_all
  note st' = handlePresenceEvent_p1_accepted [OF h, of "fst e"]
  have rest: "\<forall>e \<in> set evs. State__c (snd e) \<noteq> ''gone''
             \<and> component_p1.recordId ?st' = Some (CaseId__c (snd e))
             \<and> UserId__c (snd e) \<noteq> component_p1.currentUserId ?st'"
    using Cons.prems by (auto simp: handlePresenceEvent_p1_fields)
  show ?case
    unfolding deliver_p1_Cons fst_conv Cons.IH [OF rest]
    unfolding st' by simp
qed

subsection \<open>Out-of-order delivery (part_000, part_001)\<close>

text \<open>
  Claim C1, as stated, fails: no handler compares the event's timestamp with the stored
  \<^verbatim>\<open>lastSeen\<close>. In part_001, a user last seen at 1000 receives an event stamped 500:
  the stored record is replaced, its \<^verbatim>\<open>lastSeen\<close> goes back to 500 and its state
  becomes that of the older event. Delivering the events stamped 2000 and 500 in the
  two possible orders leaves two different records.
\<close>

theorem stale_assertion_counterexample:
  "Timestamp__c (heartbeatEvent ''alice'' ''idle'' False 500) < user_p1.lastSeen alice_p1
   \<and> component_p1.visibleUsers exampleComponent_p1 = [alice_p1]
   \<and> component_p1.visibleUsers
        (fst (handlePresenceEvent_p1 True (heartbeatEvent ''alice'' ''idle'' False 500)
           exampleComponent_p1))
       = [newUser_p1 (heartbeatEvent ''alice'' ''idle'' False 500)]
   \<and> user_p1.lastSeen (newUser_p1 (heartbeatEvent ''alice'' ''idle'' False 500)) = 500
   \<and> user_p1.state (newUser_p1 (heartbeatEvent ''alice'' ''idle'' False 500)) = ''idle''
   \<and> map user_p1.lastSeen (component_p1.visibleUsers
        (fst (deliver_p1 [(True, heartbeatEvent ''alice'' ''active'' False 2000),
                          (True, heartbeatEvent ''alice'' ''idle'' False 500)]
           exampleComponent_p1))) = [500]
   \<and> map user_p1.lastSeen (component_p1.visibleUsers
        (fst (deliver_p1 [(True, heartbeatEvent ''alice'' ''idle'' False 500),
                          (True, heartbeatEvent ''alice'' ''active'' False 2000)]
           exampleComponent_p1))) = [2000]"
  by (simp add: heartbeatEvent_def exampleComponent_p1_def alice_p1_def newUser_p1_def
        handlePresenceEvent_p1_def replaceAt_def or_false_def)

text \<open>
  Claim C1, amended. A non-departed event of another user on the current case always
  replaces that user's record, whatever its timestamp. For every sequence of such events,
  of any senders, interleaved and in any order of delivery, and for every user \<open>u\<close>:
  when no event of the sequence is from \<open>u\<close>, the records of \<open>u\<close> in the list are those
  that were there before, untouched; otherwise the first record of \<open>u\<close> is the one built
  from the event of \<open>u\<close> delivered last, with that event's timestamp as \<^verbatim>\<open>lastSeen\<close> and
  that event's state, and nothing else of \<open>u\<close> is added. The user ids in the list are
  those listed before, in their order, followed by the senders not yet listed, in the
  order of their first event. No other field of the component changes. This holds for
  the first component of part_000 and for part_001.
\<close>

theorem last_delivered_assertion_wins:
  assumes evs: "\<forall>e \<in> set evs. State__c (snd e) \<noteq> ''gone'' \<and> CaseId__c (snd e) = c
            \<and> UserId__c (snd e) \<noteq> component_p0a.currentUserId st0
            \<and> UserId__c (snd e) \<noteq> component_p1.currentUserId st1"
    and c0: "component_p0a.recordId st0 = Some c"
    and c1: "component_p1.recordId st1 = Some c"
  shows "filter (\<lambda>r. user_p0a.userId r = u)
             (component_p0a.visibleUsers (fst (deliver_p0a evs st0)))
           = (if filter (\<lambda>e. UserId__c (snd e) = u) evs = []
              then filter (\<lambda>r. user_p0a.userId r = u) (component_p0a.visibleUsers st0)
              else newUser_p0a (snd (last (filter (\<lambda>e. UserId__c (snd e) = u) evs)))
                   # tl (filter (\<lambda>r. user_p0a.userId r = u) (component_p0a.visibleUsers st0)))
       \<and> map user_p0a.userId (component_p0a.visibleUsers (fst (deliver_p0a evs st0)))
           = foldl (\<lambda>ids k. if k \<in> set ids then ids else ids @ [k])
               (map user_p0a.userId (component_p0a.visibleUsers st0))
               (map (\<lambda>e. UserId__c (snd e)) evs)
       \<and> (fst (deliver_p0a evs st0))
             \<lparr> component_p0a.visibleUsers := component_p0a.visibleUsers st0 \<rparr> = st0
       \<and> user_p0a.lastSeen (newUser_p0a p) = Timestamp__c p
       \<and> user_p0a.state (newUser_p0a p) = State__c p
       \<and> filter (\<lambda>r. user_p1.userId r = u)
             (component_p1.visibleUsers (fst (deliver_p1 evs st1)))
           = (if filter (\<lambda>e. UserId__c (snd e) = u) evs = []
              then filter (\<lambda>r. user_p1.userId r = u) (component_p1.visibleUsers st1)
              else newUser_p1 (snd (last (filter (\<lambda>e. UserId__c (snd e) = u) evs)))
                   # tl (filter (\<lambda>r. user_p1.userId r = u) (component_p1.visibleUsers st1)))
       \<and> map user_p1.userId (component_p1.visibleUsers (fst (deliver_p1 evs st1)))
           = foldl (\<lambda>ids k. if k \<in> set ids then ids else ids @ [k])
               (map user_p1.userId (component_p1.visibleUsers st1))
               (map (\<lambda>e. UserId__c (snd e)) evs)
       \<and> (fst (deliver_p1 evs st1))
             \<lparr> component_p1.visibleUsers := component_p1.visibleUsers st1 \<rparr> = st1
       \<and> user_p1.lastSeen (newUser_p1 p) = Timestamp__c p
       \<and> user_p1.state (newUser_p1 p) = State__c p"
proof -
  have a: "\<forall>e \<in> set evs. State__c (snd e) \<noteq> ''gone''
             \<and> component_p0a.recordId st0 = Some (CaseId__c (snd e))
             \<and> UserId__c (snd e) \<noteq> component_p0a.currentUserId st0"
    using evs c0 by simp
  have b: "\<forall>e \<in> set evs. State__c (snd e) \<noteq> ''gone''
             \<and> component_p1.recordId st1 = Some (CaseId__c (snd e))
             \<and> UserId__c (snd e) \<noteq> component_p1.currentUserId st1"
    using evs c1 by simp
  have fa: "(fst (deliver_p0a evs st0))
             \<lparr> component_p0a.visibleUsers := component_p0a.visibleUsers st0 \<rparr> = st0"
    using deliver_p0a_frame [OF a, of "component_p0a.visibleUsers st0"] by simp
  have fb: "(fst (deliver_p1 evs st1))
             \<lparr> component_p1.visibleUsers := component_p1.visibleUsers st1 \<rparr> = st1"
    using deliver_p1_frame [OF b, of "component_p1.visibleUsers st1"] by simp
  have n: "user_p0a.lastSeen (newUser_p0a p) = Timestamp__c p"
      "user_p0a.state (newUser_p0a p) = State__c p"
      "user_p1.lastSeen (newUser_p1 p) = Timestamp__c p"
      "user_p1.state (newUser_p1 p) = State__c p"
    by (simp_all add: newUser_p0a_def newUser_p1_def)
  from deliver_p0a_filter [OF a, of u] deliver_p0a_keys [OF a] fa n(1,2)
    deliver_p1_filter [OF b, of u] deliver_p1_keys [OF b] fb n(3,4)
  show ?thesis by (intro conjI)
qed


theorem last_delivered_assertion_wins_witness:
  "filter (\<lambda>r. user_p0a.userId r = ''alice'')
      (component_p0a.visibleUsers (fst (deliver_p0a interleavedEvents exampleComponent_p0a)))
     = [newUser_p0a (heartbeatEvent ''alice'' ''idle'' False 500)]
   \<and> filter (\<lambda>r. user_p0a.userId r = ''bob'')
      (component_p0a.visibleUsers (fst (deliver_p0a interleavedEvents exampleComponent_p0a)))
     = [newUser_p0a (heartbeatEvent ''bob'' ''active'' True 100)]
   \<and> map user_p0a.userId
      (component_p0a.visibleUsers (fst (deliver_p0a interleavedEvents exampleComponent_p0a)))
     = [''alice'', ''bob'']
   \<and> filter (\<lambda>r. user_p1.userId r = ''alice'')
      (component_p1.visibleUsers (fst (deliver_p1 interleavedEvents twoUsers_p1)))
     = [newUser_p1 (heartbeatEvent ''alice'' ''idle'' False 500)]
   \<and> filter (\<lambda>r. user_p1.userId r = ''carol'')
      (component_p1.visibleUsers (fst (deliver_p1 interleavedEvents twoUsers_p1)))
     = [carol_p1]
   \<and> filter (\<lambda>r. user_p1.userId r = ''bob'')
      (component_p1.visibleUsers (fst (deliver_p1 interleavedEvents twoUsers_p1)))
     = [newUser_p1 (heartbeatEvent ''bob'' ''active'' True 100)]
   \<and> map user_p1.userId
      (component_p1.visibleUsers (fst (deliver_p1 interleavedEvents twoUsers_p1)))
     = [''alice'', ''carol'', ''bob'']"
proof -
  have h: "\<forall>e \<in> set interleavedEvents. State__c (snd e) \<noteq> ''gone''
            \<and> CaseId__c (snd e) = ''case1''
            \<and> UserId__c (snd e) \<noteq> component_p0a.currentUserId exampleComponent_p0a
            \<and> UserId__c (snd e) \<noteq> component_p1.currentUserId twoUsers_p1"
      "component_p0a.recordId exampleComponent_p0a = Some ''case1''"
      "component_p1.recordId twoUsers_p1 = Some ''case1''"
    by (simp_all add: interleavedEvents_def heartbeatEvent_def exampleComponent_p0a_def
          twoUsers_p1_def exampleComponent_p1_def)
  have sent: "filter (\<lambda>e. UserId__c (snd e) = ''alice'') interleavedEvents
        = [(True, heartbeatEvent ''alice'' ''active'' False 2000),
           (True, heartbeatEvent ''alice'' ''idle'' False 500)]"
      "filter (\<lambda>e. UserId__c (snd e) = ''bob'') interleavedEvents
        = [(True, heartbeatEvent ''bob'' ''idle'' False 1500),
           (False, heartbeatEvent ''bob'' ''active'' True 100)]"
      "filter (\<lambda>e. UserId__c (snd e) = ''carol'') interleavedEvents = []"
      "map (\<lambda>e. UserId__c (snd e)) interleavedEvents = [''alice'', ''bob'', ''alice'', ''bob'']"
    by (simp_all add: interleavedEvents_def heartbeatEvent_def)
  have init: "component_p0a.visibleUsers exampleComponent_p0a = [alice_p0a]"
      "component_p1.visibleUsers twoUsers_p1 = [alice_p1, carol_p1]"
      "user_p0a.userId alice_p0a = ''alice''" "user_p1.userId alice_p1 = ''alice''"
      "user_p1.userId carol_p1 = ''carol''"
    by (simp_all add: exampleComponent_p0a_def twoUsers_p1_def alice_p0a_def alice_p1_def
          carol_p1_def)
  note t = last_delivered_assertion_wins [OF h]
  from t [where u = "''alice''"] t [where u = "''bob''"] t [where u = "''carol''"]
  show ?thesis
    by (simp add: sent init)
qed

subsection \<open>The aggregated view of a user (part_000, second component)\<close>






subsection \<open>Departure and the mobile grace period (part_001)\<close>

text \<open>
  Claim C3. In part_001, for a \<^verbatim>\<open>'gone'\<close> event of another user on the current case,
  with the listed user ids distinct. When the event is not flagged mobile, the component
  after the handler is the component before it with \<^verbatim>\<open>visibleUsers\<close> replaced by the
  old list without the records of that user: every other record is kept, unchanged and
  in its place. When the event is flagged mobile, the list is the old one with that
  user's record replaced in place (or appended when the user was not listed) by a record
  in state \<^verbatim>\<open>'gone'\<close> whose last-seen time is the event's timestamp. Through every run
  of expiration sweeps whose clock readings are less than 60000 ms after that timestamp,
  this record is the one record of the user in the list, and the records of the other
  users are those the same sweeps leave without the event. The first sweep at 60000 ms
  or later leaves the list those sweeps leave without the event, less the records of that
  user, with no further event.
\<close>

theorem departed_assertion_p1:
  assumes other: "UserId__c p \<noteq> component_p1.currentUserId st"
    and cid: "component_p1.recordId st = Some (CaseId__c p)"
    and gone: "State__c p = ''gone''"
    and dist: "distinct (map user_p1.userId (component_p1.visibleUsers st))"
  shows "(\<not> or_false (IsMobile__c p) \<longrightarrow>
            fst (handlePresenceEvent_p1 visible p st)
              = st\<lparr> component_p1.visibleUsers :=
                     filter (\<lambda>u. user_p1.userId u \<noteq> UserId__c p)
                       (component_p1.visibleUsers st) \<rparr>)
       \<and> (or_false (IsMobile__c p) \<longrightarrow>
            fst (handlePresenceEvent_p1 visible p st)
              = st\<lparr> component_p1.visibleUsers :=
                     (if UserId__c p \<in> user_p1.userId ` set (component_p1.visibleUsers st)
                      then map (\<lambda>u. if user_p1.userId u = UserId__c p then goneUser_p1 p else u)
                             (component_p1.visibleUsers st)
                      else component_p1.visibleUsers st @ [goneUser_p1 p]) \<rparr>
            \<and> user_p1.state (goneUser_p1 p) = ''gone''
            \<and> user_p1.lastSeen (goneUser_p1 p) = Timestamp__c p
            \<and> (\<forall>nows. (\<forall>now \<in> set nows. now - Timestamp__c p < 60000) \<longrightarrow>
                 filter (\<lambda>u. user_p1.userId u = UserId__c p)
                     (component_p1.visibleUsers
                        (sweeps_p1 nows (fst (handlePresenceEvent_p1 visible p st))))
                   = [goneUser_p1 p]
                 \<and> filter (\<lambda>u. user_p1.userId u \<noteq> UserId__c p)
                     (component_p1.visibleUsers
                        (sweeps_p1 nows (fst (handlePresenceEvent_p1 visible p st))))
                   = filter (\<lambda>u. user_p1.userId u \<noteq> UserId__c p)
                       (component_p1.visibleUsers (sweeps_p1 nows st))
                 \<and> (\<forall>now. 60000 \<le> now - Timestamp__c p \<longrightarrow>
                       component_p1.visibleUsers (filterExpiredUsers_p1 now
                         (sweeps_p1 nows (fst (handlePresenceEvent_p1 visible p st))))
                       = filter (\<lambda>u. user_p1.userId u \<noteq> UserId__c p)
                           (component_p1.visibleUsers
                              (filterExpiredUsers_p1 now (sweeps_p1 nows st))))))"
proof (intro conjI impI allI)
  let ?k = "UserId__c p"
  let ?g = "goneUser_p1 p"
  let ?xs = "component_p1.visibleUsers st"
  let ?st' = "fst (handlePresenceEvent_p1 visible p st)"
  let ?w = "component_p1.presenceExpirationMs st"
  note step = handlePresenceEvent_p1_gone [OF other cid gone dist, of visible]
  show "\<not> or_false (IsMobile__c p) \<Longrightarrow>
          ?st' = st\<lparr> component_p1.visibleUsers := filter (\<lambda>u. user_p1.userId u \<noteq> ?k) ?xs \<rparr>"
    by (rule step(1))
  show "user_p1.state ?g = ''gone''" "user_p1.lastSeen ?g = Timestamp__c p"
    by (simp_all add: goneUser_p1_def)
  assume mobile: "or_false (IsMobile__c p)"
  let ?ys = "if ?k \<in> user_p1.userId ` set ?xs
             then map (\<lambda>u. if user_p1.userId u = ?k then ?g else u) ?xs
             else ?xs @ [?g]"
  show eq: "?st' = st\<lparr> component_p1.visibleUsers := ?ys \<rparr>"
    using mobile by (rule step(2))
  have ys: "component_p1.visibleUsers ?st' = ?ys"
    and w: "component_p1.presenceExpirationMs ?st' = ?w"
    by (simp_all add: eq)
  note split = gone_record_split [OF dist refl, of p]
  fix nows
  assume early: "\<forall>now \<in> set nows. now - Timestamp__c p < 60000"
  let ?Q = "\<lambda>u. \<forall>now \<in> set nows. retained_p1 ?w now u"
  have Qg: "?Q ?g"
    using early by (simp add: retained_p1_def goneUser_p1_def MOBILE_GRACE_PERIOD_MS_def)
  have sw': "component_p1.visibleUsers (sweeps_p1 nows ?st') = filter ?Q ?ys"
    by (simp add: visibleUsers_sweeps_p1 ys w)
  have sw: "component_p1.visibleUsers (sweeps_p1 nows st) = filter ?Q ?xs"
    by (simp add: visibleUsers_sweeps_p1)
  have "filter (\<lambda>u. user_p1.userId u = ?k) (filter ?Q ?ys)
          = filter ?Q (filter (\<lambda>u. user_p1.userId u = ?k) ?ys)"
    by (simp add: conj_commute)
  also have "\<dots> = [?g]"
    unfolding split(1) using Qg by simp
  finally show "filter (\<lambda>u. user_p1.userId u = ?k)
                  (component_p1.visibleUsers (sweeps_p1 nows ?st')) = [?g]"
    unfolding sw' .
  have others: "filter (\<lambda>u. user_p1.userId u \<noteq> ?k) (filter R ?ys)
                  = filter (\<lambda>u. user_p1.userId u \<noteq> ?k) (filter R ?xs)" for R
  proof -
    have "filter (\<lambda>u. user_p1.userId u \<noteq> ?k) (filter R ?ys)
            = filter R (filter (\<lambda>u. user_p1.userId u \<noteq> ?k) ?ys)"
      by (simp add: conj_commute)
    also have "\<dots> = filter R (filter (\<lambda>u. user_p1.userId u \<noteq> ?k) ?xs)"
      unfolding split(2) ..
    also have "\<dots> = filter (\<lambda>u. user_p1.userId u \<noteq> ?k) (filter R ?xs)"
      by (simp add: conj_commute)
    finally show ?thesis .
  qed
  show "filter (\<lambda>u. user_p1.userId u \<noteq> ?k) (component_p1.visibleUsers (sweeps_p1 nows ?st'))
          = filter (\<lambda>u. user_p1.userId u \<noteq> ?k) (component_p1.visibleUsers (sweeps_p1 nows st))"
    unfolding sw' sw by (rule others)
  fix now
  assume late: "60000 \<le> now - Timestamp__c p"
  let ?R = "\<lambda>u. ?Q u \<and> retained_p1 ?w now u"
  have notR: "\<not> retained_p1 ?w now ?g"
    using late by (simp add: retained_p1_def goneUser_p1_def MOBILE_GRACE_PERIOD_MS_def)
  have l': "component_p1.visibleUsers (filterExpiredUsers_p1 now (sweeps_p1 nows ?st'))
              = filter ?R ?ys"
    by (simp add: visibleUsers_filterExpiredUsers_p1 presenceExpirationMs_sweeps_p1 sw' w
          conj_commute)
  have l: "component_p1.visibleUsers (filterExpiredUsers_p1 now (sweeps_p1 nows st))
              = filter ?R ?xs"
    by (simp add: visibleUsers_filterExpiredUsers_p1 presenceExpirationMs_sweeps_p1 sw
          conj_commute)
  have "filter (\<lambda>u. user_p1.userId u = ?k) (filter ?R ?ys)
          = filter ?R (filter (\<lambda>u. user_p1.userId u = ?k) ?ys)"
    by (simp add: conj_commute)
  also have "\<dots> = []"
    unfolding split(1) using notR by simp
  finally have "filter (\<lambda>u. \<not> user_p1.userId u = ?k) (filter ?R ?ys) = filter ?R ?ys"
    by (rule no_match_filter)
  then have "filter ?R ?ys = filter (\<lambda>u. user_p1.userId u \<noteq> ?k) (filter ?R ?ys)"
    by simp
  also have "\<dots> = filter (\<lambda>u. user_p1.userId u \<noteq> ?k) (filter ?R ?xs)"
    by (rule others)
  finally show "component_p1.visibleUsers (filterExpiredUsers_p1 now (sweeps_p1 nows ?st'))
          = filter (\<lambda>u. user_p1.userId u \<noteq> ?k)
              (component_p1.visibleUsers (filterExpiredUsers_p1 now (sweeps_p1 nows st)))"
    unfolding l' l .
qed


theorem departed_assertion_p1_witness:
  "fst (handlePresenceEvent_p1 True (goneEvent ''alice'' False 5000) twoUsers_p1)
     = twoUsers_p1\<lparr> component_p1.visibleUsers := [carol_p1] \<rparr>
   \<and> fst (handlePresenceEvent_p1 True (goneEvent ''alice'' True 5000) twoUsers_p1)
     = twoUsers_p1\<lparr> component_p1.visibleUsers :=
         [goneUser_p1 (goneEvent ''alice'' True 5000), carol_p1] \<rparr>
   \<and> filter (\<lambda>u. user_p1.userId u = ''alice'') (component_p1.visibleUsers
        (sweeps_p1 [10000, 64999]
          (fst (handlePresenceEvent_p1 True (goneEvent ''alice'' True 5000) twoUsers_p1))))
     = [goneUser_p1 (goneEvent ''alice'' True 5000)]
   \<and> filter (\<lambda>u. user_p1.userId u \<noteq> ''alice'') (component_p1.visibleUsers
        (sweeps_p1 [10000, 64999]
          (fst (handlePresenceEvent_p1 True (goneEvent ''alice'' True 5000) twoUsers_p1))))
     = [carol_p1]
   \<and> component_p1.visibleUsers
        (filterExpiredUsers_p1 65000 (sweeps_p1 [10000, 64999]
          (fst (handlePresenceEvent_p1 True (goneEvent ''alice'' True 5000) twoUsers_p1))))
     = [carol_p1]"
proof -
  have h: "UserId__c (goneEvent ''alice'' m 5000) \<noteq> component_p1.currentUserId twoUsers_p1"
      "component_p1.recordId twoUsers_p1 = Some (CaseId__c (goneEvent ''alice'' m 5000))"
      "State__c (goneEvent ''alice'' m 5000) = ''gone''" for m
    by (simp_all add: goneEvent_def twoUsers_p1_def exampleComponent_p1_def)
  have d: "distinct (map user_p1.userId (component_p1.visibleUsers twoUsers_p1))"
    by (simp add: twoUsers_p1_def alice_p1_def carol_p1_def)
  have e: "or_false (IsMobile__c (goneEvent ''alice'' True 5000))"
      "\<not> or_false (IsMobile__c (goneEvent ''alice'' False 5000))"
      "Timestamp__c (goneEvent u m 5000) = 5000"
      "UserId__c (goneEvent u m 5000) = u" for u m
    by (simp_all add: goneEvent_def or_false_def)
  have xs: "component_p1.visibleUsers twoUsers_p1 = [alice_p1, carol_p1]"
      "user_p1.userId alice_p1 = ''alice''" "user_p1.userId carol_p1 = ''carol''"
    by (simp_all add: twoUsers_p1_def alice_p1_def carol_p1_def)
  have old: "component_p1.visibleUsers (sweeps_p1 [10000, 64999] twoUsers_p1)
               = [alice_p1, carol_p1]"
      "component_p1.visibleUsers
         (filterExpiredUsers_p1 65000 (sweeps_p1 [10000, 64999] twoUsers_p1))
               = [alice_p1, carol_p1]"
    by (simp_all add: filterExpiredUsers_p1_def retained_p1_def twoUsers_p1_def
          exampleComponent_p1_def alice_p1_def carol_p1_def MOBILE_GRACE_PERIOD_MS_def)
  have early: "\<forall>now \<in> set [10000, 64999]. now - 5000 < (60000 :: int)"
    and late: "(60000 :: int) \<le> 65000 - 5000"
    by simp_all
  note normal = departed_assertion_p1 [OF h [of False] d, of True]
  note mobile = departed_assertion_p1 [OF h [of True] d, of True]
  note m = mobile [THEN conjunct2, THEN mp, OF e(1), unfolded e(3) e(4)]
  note kept = m [THEN conjunct2, THEN conjunct2, THEN conjunct2,
      THEN spec [where x = "[10000, 64999]"], THEN mp, OF early]
  note removed = kept [THEN conjunct2, THEN conjunct2, THEN spec [where x = 65000],
      THEN mp, OF late]
  have 1: "fst (handlePresenceEvent_p1 True (goneEvent ''alice'' False 5000) twoUsers_p1)
             = twoUsers_p1\<lparr> component_p1.visibleUsers := [carol_p1] \<rparr>"
    using normal [THEN conjunct1, THEN mp, OF e(2)] by (simp add: e xs)
  have 2: "fst (handlePresenceEvent_p1 True (goneEvent ''alice'' True 5000) twoUsers_p1)
     = twoUsers_p1\<lparr> component_p1.visibleUsers :=
         [goneUser_p1 (goneEvent ''alice'' True 5000), carol_p1] \<rparr>"
    using m [THEN conjunct1] by (simp add: xs)
  have 3: "filter (\<lambda>u. user_p1.userId u \<noteq> ''alice'') (component_p1.visibleUsers
        (sweeps_p1 [10000, 64999]
          (fst (handlePresenceEvent_p1 True (goneEvent ''alice'' True 5000) twoUsers_p1))))
        = [carol_p1]"
    using kept [THEN conjunct2, THEN conjunct1] unfolding old by (simp add: xs)
  have 4: "component_p1.visibleUsers (filterExpiredUsers_p1 65000 (sweeps_p1 [10000, 64999]
             (fst (handlePresenceEvent_p1 True (goneEvent ''alice'' True 5000) twoUsers_p1))))
        = [carol_p1]"
    using removed unfolding old by (simp add: xs)
  from 1 2 kept [THEN conjunct1] 3 4 show ?thesis by (intro conjI)
qed

subsection \<open>The expiration sweep (part_000, part_001)\<close>

text \<open>
  Claim C4, as stated, fails at the boundary: the sweep (here that of the first component
  of part_000) removes a user whose age equals
  the window, although that age does not exceed the window. Here the window is 600000 ms
  and the user was last seen exactly 600000 ms before the sweep.
\<close>

theorem exceeds_window_counterexample:
  "alice_p0a \<in> set (component_p0a.visibleUsers exampleComponent_p0a)
   \<and> \<not> (601000 - user_p0a.lastSeen alice_p0a
          > component_p0a.presenceExpirationMs exampleComponent_p0a)
   \<and> alice_p0a \<notin> set (component_p0a.visibleUsers
          (filterExpiredUsers_p0a 601000 exampleComponent_p0a))"
  by (simp add: exampleComponent_p0a_def alice_p0a_def filterExpiredUsers_p0a_def
        retained_p0a_def)

text \<open>
  Claim C4, amended. In the first component of part_000 (lines 403-417) and in part_001
  (lines 454-475), \<^verbatim>\<open>filterExpiredUsers\<close> removes a listed user if and only if the age
  of its \<^verbatim>\<open>lastSeen\<close> has reached the applicable window (age at least the window):
  \<^verbatim>\<open>presenceExpirationMs\<close> in the first component of part_000 and for non-mobile users
  of part_001, the fixed 60000 ms for mobile users of part_001. Every younger user is
  kept, in the list's order. With a window of ten minutes, a user last seen ten minutes
  and one millisecond ago is removed by the next sweep. (The second component of
  part_000 has no \<^verbatim>\<open>filterExpiredUsers\<close>; nothing is stated here about its cleanup.)
\<close>

theorem sweep_removes_iff_window_reached:
  "(\<forall>u \<in> set (component_p0a.visibleUsers st).
       (u \<notin> set (component_p0a.visibleUsers (filterExpiredUsers_p0a now st)) \<longleftrightarrow>
          component_p0a.presenceExpirationMs st \<le> now - user_p0a.lastSeen u))
   \<and> component_p0a.visibleUsers (filterExpiredUsers_p0a now st)
       = filter (\<lambda>u. now - user_p0a.lastSeen u < component_p0a.presenceExpirationMs st)
           (component_p0a.visibleUsers st)
   \<and> (\<forall>u \<in> set (component_p1.visibleUsers st1).
       (u \<notin> set (component_p1.visibleUsers (filterExpiredUsers_p1 now st1)) \<longleftrightarrow>
          window_p1 st1 u \<le> now - user_p1.lastSeen u))
   \<and> component_p1.visibleUsers (filterExpiredUsers_p1 now st1)
       = filter (\<lambda>u. now - user_p1.lastSeen u < window_p1 st1 u)
           (component_p1.visibleUsers st1)"
proof -
  have r0: "retained_p0a w now = (\<lambda>u. now - user_p0a.lastSeen u < w)" for w
    by (rule ext) (simp add: retained_p0a_def)
  have r1: "retained_p1 (component_p1.presenceExpirationMs st1) now
              = (\<lambda>u. now - user_p1.lastSeen u < window_p1 st1 u)"
    by (rule ext) (simp add: retained_p1_def window_p1_def)
  show ?thesis
    by (auto simp: filterExpiredUsers_p0a_def filterExpiredUsers_p1_def r0 r1)
qed

theorem sweep_removes_iff_window_reached_witness:
  "alice_p0a \<in> set (component_p0a.visibleUsers exampleComponent_p0a)
   \<and> component_p0a.presenceExpirationMs exampleComponent_p0a = 10 * 60 * 1000
   \<and> alice_p0a \<notin> set (component_p0a.visibleUsers
         (filterExpiredUsers_p0a (user_p0a.lastSeen alice_p0a + 10 * 60 * 1000 + 1)
            exampleComponent_p0a))
   \<and> alice_p0a \<in> set (component_p0a.visibleUsers
         (filterExpiredUsers_p0a (user_p0a.lastSeen alice_p0a + 10 * 60 * 1000 - 1)
            exampleComponent_p0a))
   \<and> alice_p1 \<in> set (component_p1.visibleUsers exampleComponent_p1)
   \<and> window_p1 exampleComponent_p1 alice_p1 = 10 * 60 * 1000
   \<and> alice_p1 \<notin> set (component_p1.visibleUsers
         (filterExpiredUsers_p1 (user_p1.lastSeen alice_p1 + 10 * 60 * 1000 + 1)
            exampleComponent_p1))
   \<and> window_p1 exampleComponent_p1 (alice_p1\<lparr> user_p1.isMobile := True \<rparr>) = 60000"
proof -
  have a: "alice_p0a \<in> set (component_p0a.visibleUsers exampleComponent_p0a)"
    and w: "component_p0a.presenceExpirationMs exampleComponent_p0a = 10 * 60 * 1000"
    and a1: "alice_p1 \<in> set (component_p1.visibleUsers exampleComponent_p1)"
    and w1: "window_p1 exampleComponent_p1 alice_p1 = 10 * 60 * 1000"
    and w1': "window_p1 exampleComponent_p1 (alice_p1\<lparr> user_p1.isMobile := True \<rparr>) = 60000"
    by (simp_all add: exampleComponent_p0a_def exampleComponent_p1_def window_p1_def
          alice_p1_def MOBILE_GRACE_PERIOD_MS_def)
  note late = sweep_removes_iff_window_reached
      [of exampleComponent_p0a "user_p0a.lastSeen alice_p0a + 10 * 60 * 1000 + 1"
          exampleComponent_p1]
  note early = sweep_removes_iff_window_reached
      [of exampleComponent_p0a "user_p0a.lastSeen alice_p0a + 10 * 60 * 1000 - 1"
          exampleComponent_p1]
  have l: "user_p0a.lastSeen alice_p0a = user_p1.lastSeen alice_p1"
    by (simp add: alice_p0a_def alice_p1_def)
  from late a w have 1: "alice_p0a \<notin> set (component_p0a.visibleUsers
         (filterExpiredUsers_p0a (user_p0a.lastSeen alice_p0a + 10 * 60 * 1000 + 1)
            exampleComponent_p0a))"
    by simp
  from early a w have 2: "alice_p0a \<in> set (component_p0a.visibleUsers
         (filterExpiredUsers_p0a (user_p0a.lastSeen alice_p0a + 10 * 60 * 1000 - 1)
            exampleComponent_p0a))"
    by simp
  from late a1 w1 l have 3: "alice_p1 \<notin> set (component_p1.visibleUsers
         (filterExpiredUsers_p1 (user_p1.lastSeen alice_p1 + 10 * 60 * 1000 + 1)
            exampleComponent_p1))"
    by simp
  from a w 1 2 a1 w1 3 w1' show ?thesis by blast
qed

subsection \<open>The local actor in the displayed list\<close>

text \<open>
  Claim C5, as stated, fails in part_002: \<^verbatim>\<open>updateOwnPresence\<close>, called after every
  successful publish, puts the component's own session into \<^verbatim>\<open>visibleUsers\<close>, named
  with the suffix \<^verbatim>\<open>(you)\<close>; and its event handler ignores only the events of the own
  session, so an event of the current user's other tab is listed too. From a list
  without the current user, the list afterwards holds the current user.
\<close>

theorem own_presence_listed_counterexample:
  "component_p2.currentUserId exampleComponent_p2
      \<notin> user_p2.userId ` set (component_p2.visibleUsers exampleComponent_p2)
   \<and> map user_p2.userId
        (component_p2.visibleUsers (updateOwnPresence_p2 2000 ''active'' exampleComponent_p2))
       = [''alice'', ''me'']
   \<and> map user_p2.userName
        (component_p2.visibleUsers (updateOwnPresence_p2 2000 ''active'' exampleComponent_p2))
       = [''Alice A'', ''Me M (you)'']
   \<and> map user_p2.userId
        (component_p2.visibleUsers
           (fst (publishStateChange_p2 2000 Resolved ''active'' exampleComponent_p2)))
       = [''alice'', ''me'']
   \<and> map user_p2.userId
        (component_p2.visibleUsers
           (fst (handlePresenceEvent_p2 True
              (heartbeatEvent ''me'' ''active'' False 2000) exampleComponent_p2)))
       = [''alice'', ''me'']"
  by (simp add: exampleComponent_p2_def alice_p2_def updateOwnPresence_p2_def ownUser_p2_def
        publishStateChange_p2_def handlePresenceEvent_p2_def heartbeatEvent_def
        newUser_p2_def Let_def)

text \<open>
  Claim C5, amended. In part_000 (first component) and part_001, a list of visible
  users that does not hold the current user does not hold it after any sequence of
  delivered events and expiration sweeps. In the second component of part_000 the list
  computed by \<^verbatim>\<open>updateVisibleUsers\<close> never holds the current user, and the event
  handler, the draft check and the cleanup keep the current user out. In part_002 the
  list holds the current user's own session after every \<^verbatim>\<open>updateOwnPresence\<close>.
\<close>

theorem self_excluded:
  "(component_p0a.currentUserId st0
        \<notin> user_p0a.userId ` set (component_p0a.visibleUsers st0) \<longrightarrow>
      component_p0a.currentUserId st0
        \<notin> user_p0a.userId ` set (component_p0a.visibleUsers (run_p0a steps st0)))
   \<and> (component_p1.currentUserId st1
        \<notin> user_p1.userId ` set (component_p1.visibleUsers st1) \<longrightarrow>
      component_p1.currentUserId st1
        \<notin> user_p1.userId ` set (component_p1.visibleUsers (run_p1 steps st1)))
   \<and> component_p0b.currentUserId stb
        \<notin> visible_p0b.userId ` set (component_p0b.visibleUsers (updateVisibleUsers_p0b now stb))
   \<and> (component_p0b.currentUserId stb
        \<notin> visible_p0b.userId ` set (component_p0b.visibleUsers stb) \<longrightarrow>
      component_p0b.currentUserId stb \<notin> visible_p0b.userId `
           set (component_p0b.visibleUsers (fst (handlePresenceEvent_p0b now p stb)))
      \<and> component_p0b.currentUserId stb \<notin> visible_p0b.userId `
           set (component_p0b.visibleUsers (checkForDrafts_p0b now drafts stb))
      \<and> component_p0b.currentUserId stb \<notin> visible_p0b.userId `
           set (component_p0b.visibleUsers (fst (cleanupStalePresence_p0b now stb))))
   \<and> component_p2.currentUserId st2
        \<in> user_p2.userId ` set (component_p2.visibleUsers (updateOwnPresence_p2 now st_name st2))"
  by (intro conjI impI)
    (simp_all add: own_user_absent_run_p0a own_user_absent_run_p1
       own_user_absent_updateVisibleUsers_p0b own_user_absent_ops_p0b
       own_listed_updateOwnPresence_p2)

theorem self_excluded_witness:
  "component_p0a.currentUserId exampleComponent_p0a
      \<notin> user_p0a.userId ` set (component_p0a.visibleUsers exampleComponent_p0a)
   \<and> ''me'' \<notin> user_p0a.userId ` set (component_p0a.visibleUsers
        (run_p0a [Assertion True (heartbeatEvent ''me'' ''active'' False 2000),
                  Assertion True (heartbeatEvent ''bob'' ''active'' False 3000),
                  Sweep 4000] exampleComponent_p0a))
   \<and> component_p1.currentUserId exampleComponent_p1
      \<notin> user_p1.userId ` set (component_p1.visibleUsers exampleComponent_p1)
   \<and> ''me'' \<notin> user_p1.userId ` set (component_p1.visibleUsers
        (run_p1 [Assertion True (heartbeatEvent ''me'' ''active'' False 2000),
                 Assertion True (heartbeatEvent ''bob'' ''active'' False 3000),
                 Sweep 4000] exampleComponent_p1))
   \<and> component_p0b.currentUserId exampleComponent_p0b
      \<notin> visible_p0b.userId ` set (component_p0b.visibleUsers exampleComponent_p0b)
   \<and> ''me'' \<notin> visible_p0b.userId ` set (component_p0b.visibleUsers
        (fst (handlePresenceEvent_p0b 4000
           (heartbeatEvent ''me'' ''viewing'' False 3000) exampleComponent_p0b)))
   \<and> map visible_p0b.userId (component_p0b.visibleUsers
        (fst (handlePresenceEvent_p0b 4000
           (heartbeatEvent ''me'' ''viewing'' False 3000) exampleComponent_p0b)))
       = [''alice'', ''bob'']"
proof -
  let ?steps = "[Assertion True (heartbeatEvent ''me'' ''active'' False 2000),
                 Assertion True (heartbeatEvent ''bob'' ''active'' False 3000),
                 Sweep 4000]"
  have h0: "component_p0a.currentUserId exampleComponent_p0a
      \<notin> user_p0a.userId ` set (component_p0a.visibleUsers exampleComponent_p0a)"
    and h1: "component_p1.currentUserId exampleComponent_p1
      \<notin> user_p1.userId ` set (component_p1.visibleUsers exampleComponent_p1)"
    and hb: "component_p0b.currentUserId exampleComponent_p0b
      \<notin> visible_p0b.userId ` set (component_p0b.visibleUsers exampleComponent_p0b)"
    by (simp_all add: exampleComponent_p0a_def alice_p0a_def exampleComponent_p1_def
          alice_p1_def exampleComponent_p0b_def)
  have me: "component_p0a.currentUserId exampleComponent_p0a = ''me''"
      "component_p1.currentUserId exampleComponent_p1 = ''me''"
      "component_p0b.currentUserId exampleComponent_p0b = ''me''"
    by (simp_all add: exampleComponent_p0a_def exampleComponent_p1_def exampleComponent_p0b_def)
  note t = self_excluded [of exampleComponent_p0a ?steps exampleComponent_p1
      exampleComponent_p0b 4000 "heartbeatEvent ''me'' ''viewing'' False 3000" "[]"
      exampleComponent_p2 "''active''"]
  from t h0 have 0: "''me'' \<notin> user_p0a.userId ` set (component_p0a.visibleUsers
        (run_p0a ?steps exampleComponent_p0a))"
    unfolding me by blast
  from t h1 have 1: "''me'' \<notin> user_p1.userId ` set (component_p1.visibleUsers
        (run_p1 ?steps exampleComponent_p1))"
    unfolding me by blast
  from t hb have b: "''me'' \<notin> visible_p0b.userId ` set (component_p0b.visibleUsers
        (fst (handlePresenceEvent_p0b 4000
           (heartbeatEvent ''me'' ''viewing'' False 3000) exampleComponent_p0b)))"
    unfolding me by blast
  have l: "map visible_p0b.userId (component_p0b.visibleUsers
        (fst (handlePresenceEvent_p0b 4000
           (heartbeatEvent ''me'' ''viewing'' False 3000) exampleComponent_p0b)))
       = [''alice'', ''bob'']"
    by (simp add: handlePresenceEvent_p0b_def heartbeatEvent_def exampleComponent_p0b_def
          updateVisibleUsers_p0b_def mergedUsers_p0b_def session_p0b_def mergeStep_p0b_def
          firstSession_p0b_def mergeSession_p0b_def compareUsers_p0b_def Let_def)
  from h0 0 h1 1 hb b l show ?thesis by blast
qed

subsection \<open>Suppression of redundant publishes (part_000, part_001, part_002)\<close>

text \<open>
  Claim C6, as stated, fails. In the first component of part_000 (lines 360-389) the
  state and the draft status are recorded
  before \<^verbatim>\<open>publishPresence\<close> is awaited and stay recorded when the call is rejected:
  after \<^verbatim>\<open>'active'\<close> was published successfully and the publish of \<^verbatim>\<open>'idle'\<close> was
  rejected, a further call with \<^verbatim>\<open>'idle'\<close> publishes nothing, although \<^verbatim>\<open>'idle'\<close>
  differs from the last successfully published state. In part_001 there is no
  suppression: a second call with the same state and draft status publishes again.
\<close>

theorem failed_publish_counterexample:
  "map (\<lambda>c. (publishPresence_params.state (fst c), snd c))
      (snd (publishStateChange_p0a Resolved ''active'' exampleComponent_p0a))
     = [(''active'', Resolved)]
   \<and> map (\<lambda>c. (publishPresence_params.state (fst c), snd c))
      (snd (publishStateChange_p0a Rejected ''idle''
         (fst (publishStateChange_p0a Resolved ''active'' exampleComponent_p0a))))
     = [(''idle'', Rejected)]
   \<and> snd (publishStateChange_p0a Resolved ''idle''
         (fst (publishStateChange_p0a Rejected ''idle''
           (fst (publishStateChange_p0a Resolved ''active'' exampleComponent_p0a)))))
     = []
   \<and> map (\<lambda>c. (publishPresence_params.state (fst c), snd c))
      (snd (publishStateChange_p1 Resolved ''active''
         (fst (publishStateChange_p1 Resolved ''active'' exampleComponent_p1))))
     = [(''active'', Resolved)]"
  by (simp add: publishStateChange_p0a_def publishStateChange_p1_def
        exampleComponent_p0a_def exampleComponent_p1_def)

text \<open>
  Claim C6, amended. In the first component of part_000 (\<^verbatim>\<open>publishStateChange\<close>, lines
  360-389), for a component that is active and has a record id, a
  call is a no-op if the state and the draft status both equal those of the last
  assertion handed to \<^verbatim>\<open>publishPresence\<close>, whether that call resolved or was rejected;
  if either differs, exactly one assertion with the new state and the current draft
  status is handed over, and it becomes the last one. Without a record id or on an
  inactive component every call is a no-op. In part_001 every call of an active
  component with a record id hands one assertion over. In part_002 a call is a no-op
  exactly when the state equals the recorded one (the draft status is not compared).
\<close>

theorem publish_suppression:
  "(recorded_p0a st0 trace \<and> trace \<noteq> [] \<and> component_p0a.recordId st0 = Some rid
      \<and> rid \<noteq> [] \<and> component_p0a.isComponentActive st0 \<longrightarrow>
      (newState = publishPresence_params.state (fst (last trace))
         \<and> Some (component_p0a.hasDrafts st0) = publishPresence_params.hasDraft (fst (last trace))
       \<longrightarrow> publishStateChange_p0a result newState st0 = (st0, []))
      \<and> (\<not> (newState = publishPresence_params.state (fst (last trace))
         \<and> Some (component_p0a.hasDrafts st0) = publishPresence_params.hasDraft (fst (last trace)))
       \<longrightarrow> (\<exists>call. snd (publishStateChange_p0a result newState st0) = [(call, result)]
              \<and> publishPresence_params.state call = newState
              \<and> publishPresence_params.hasDraft call = Some (component_p0a.hasDrafts st0)))
      \<and> recorded_p0a (fst (publishStateChange_p0a result newState st0))
            (trace @ snd (publishStateChange_p0a result newState st0)))
   \<and> (component_p0a.recordId st0 = None \<or> component_p0a.recordId st0 = Some []
        \<or> \<not> component_p0a.isComponentActive st0
      \<longrightarrow> publishStateChange_p0a result newState st0 = (st0, []))
   \<and> (component_p1.recordId st1 = Some rid \<and> rid \<noteq> [] \<and> component_p1.isComponentActive st1
      \<longrightarrow> (\<exists>call. snd (publishStateChange_p1 result newState st1) = [(call, result)]
              \<and> publishPresence_params.state call = newState))
   \<and> (component_p2.recordId st2 = Some rid \<and> rid \<noteq> [] \<and> component_p2.isComponentActive st2
      \<longrightarrow> (Some newState = component_p2.currentState st2
              \<longrightarrow> publishStateChange_p2 now result newState st2 = (st2, []))
          \<and> (Some newState \<noteq> component_p2.currentState st2
              \<longrightarrow> (\<exists>call. snd (publishStateChange_p2 now result newState st2) = [(call, result)]
              \<and> publishPresence_params.state call = newState)))"
proof (intro conjI impI)
  assume a: "recorded_p0a st0 trace \<and> trace \<noteq> [] \<and> component_p0a.recordId st0 = Some rid
      \<and> rid \<noteq> [] \<and> component_p0a.isComponentActive st0"
  then have rec: "component_p0a.currentState st0
                    = Some (publishPresence_params.state (fst (last trace)))"
      "publishPresence_params.hasDraft (fst (last trace))
         = Some (component_p0a.lastPublishedDraftStatus st0)"
    by (simp_all add: recorded_p0a_def)
  {
    assume "newState = publishPresence_params.state (fst (last trace))
         \<and> Some (component_p0a.hasDrafts st0) = publishPresence_params.hasDraft (fst (last trace))"
    with rec show "publishStateChange_p0a result newState st0 = (st0, [])"
      by (intro publishStateChange_p0a_same) simp_all
  }
  {
    assume "\<not> (newState = publishPresence_params.state (fst (last trace))
         \<and> Some (component_p0a.hasDrafts st0) = publishPresence_params.hasDraft (fst (last trace)))"
    with rec have "\<not> (Some newState = component_p0a.currentState st0
            \<and> component_p0a.lastPublishedDraftStatus st0 = component_p0a.hasDrafts st0)"
      by auto
    from publishStateChange_p0a_changed [OF _ _ _ this, of rid result] a
    show "\<exists>call. snd (publishStateChange_p0a result newState st0) = [(call, result)]
              \<and> publishPresence_params.state call = newState
              \<and> publishPresence_params.hasDraft call = Some (component_p0a.hasDrafts st0)"
      by simp
  }
  from a show "recorded_p0a (fst (publishStateChange_p0a result newState st0))
            (trace @ snd (publishStateChange_p0a result newState st0))"
    by (intro recorded_p0a_step) simp
next
  assume "component_p0a.recordId st0 = None \<or> component_p0a.recordId st0 = Some []
        \<or> \<not> component_p0a.isComponentActive st0"
  then show "publishStateChange_p0a result newState st0 = (st0, [])"
    by (rule publishStateChange_p0a_guard)
next
  assume "component_p1.recordId st1 = Some rid \<and> rid \<noteq> [] \<and> component_p1.isComponentActive st1"
  then show "\<exists>call. snd (publishStateChange_p1 result newState st1) = [(call, result)]
              \<and> publishPresence_params.state call = newState"
    by (simp add: publishStateChange_p1_def)
next
  assume "component_p2.recordId st2 = Some rid \<and> rid \<noteq> [] \<and> component_p2.isComponentActive st2"
    and "Some newState = component_p2.currentState st2"
  then show "publishStateChange_p2 now result newState st2 = (st2, [])"
    by (simp add: publishStateChange_p2_def)
next
  assume "component_p2.recordId st2 = Some rid \<and> rid \<noteq> [] \<and> component_p2.isComponentActive st2"
    and "Some newState \<noteq> component_p2.currentState st2"
  then show "\<exists>call. snd (publishStateChange_p2 now result newState st2) = [(call, result)]
              \<and> publishPresence_params.state call = newState"
    by (cases result) (simp_all add: publishStateChange_p2_def Let_def)
qed

theorem publish_suppression_witness:
  "recorded_p0a (fst (publishStateChange_p0a Rejected ''idle'' exampleComponent_p0a))
      (snd (publishStateChange_p0a Rejected ''idle'' exampleComponent_p0a))
   \<and> map (\<lambda>c. (publishPresence_params.state (fst c), snd c))
        (snd (publishStateChange_p0a Rejected ''idle'' exampleComponent_p0a))
       = [(''idle'', Rejected)]
   \<and> snd (publishStateChange_p0a Resolved ''idle''
          (fst (publishStateChange_p0a Rejected ''idle'' exampleComponent_p0a))) = []
   \<and> map (\<lambda>c. (publishPresence_params.state (fst c), snd c))
        (snd (publishStateChange_p0a Resolved ''active''
          (fst (publishStateChange_p0a Rejected ''idle'' exampleComponent_p0a))))
       = [(''active'', Resolved)]
   \<and> publishStateChange_p0a Resolved ''active''
        (exampleComponent_p0a\<lparr> component_p0a.isComponentActive := False \<rparr>)
       = (exampleComponent_p0a\<lparr> component_p0a.isComponentActive := False \<rparr>, [])"
proof -
  let ?s = "fst (publishStateChange_p0a Rejected ''idle'' exampleComponent_p0a)"
  let ?t = "snd (publishStateChange_p0a Rejected ''idle'' exampleComponent_p0a)"
  have t: "map (\<lambda>c. (publishPresence_params.state (fst c), snd c)) ?t = [(''idle'', Rejected)]"
    by (simp add: publishStateChange_p0a_def exampleComponent_p0a_def)
  have h: "recorded_p0a ?s ?t \<and> ?t \<noteq> [] \<and> component_p0a.recordId ?s = Some ''case1''
      \<and> ''case1'' \<noteq> [] \<and> component_p0a.isComponentActive ?s"
    by (simp add: publishStateChange_p0a_def exampleComponent_p0a_def recorded_p0a_def)
  have l: "publishPresence_params.state (fst (last ?t)) = ''idle''"
      "publishPresence_params.hasDraft (fst (last ?t)) = Some False"
      "component_p0a.hasDrafts ?s = False"
    by (simp_all add: publishStateChange_p0a_def exampleComponent_p0a_def)
  note same = publish_suppression
      [of ?s ?t "''case1''" "''idle''" Resolved exampleComponent_p1 exampleComponent_p2 0]
  note changed = publish_suppression
      [of ?s ?t "''case1''" "''active''" Resolved exampleComponent_p1 exampleComponent_p2 0]
  note guard = publish_suppression
      [of "exampleComponent_p0a\<lparr> component_p0a.isComponentActive := False \<rparr>" "[]"
          "''case1''" "''active''" Resolved exampleComponent_p1 exampleComponent_p2 0]
  from same h l have 1: "snd (publishStateChange_p0a Resolved ''idle'' ?s) = []"
    by simp
  from changed h l obtain call where
    "snd (publishStateChange_p0a Resolved ''active'' ?s) = [(call, Resolved)]"
    "publishPresence_params.state call = ''active''"
    by auto
  then have 2: "map (\<lambda>c. (publishPresence_params.state (fst c), snd c))
        (snd (publishStateChange_p0a Resolved ''active'' ?s)) = [(''active'', Resolved)]"
    by simp
  from guard have 3: "publishStateChange_p0a Resolved ''active''
        (exampleComponent_p0a\<lparr> component_p0a.isComponentActive := False \<rparr>)
       = (exampleComponent_p0a\<lparr> component_p0a.isComponentActive := False \<rparr>, [])"
    by simp
  from h t 1 2 3 show ?thesis by blast
qed

subsection \<open>Notification gate (part_000, part_001)\<close>

text \<open>
  Claim C7, as stated, fails in part_001: its handler tests only the tab visibility, not
  the component's \<^verbatim>\<open>isActive\<close> flag. With the local session idle
  (\<^verbatim>\<open>isActive = false\<close>) and the tab visible, the join of another user dispatches the
  join toast.
\<close>

theorem idle_but_visible_counterexample:
  "\<not> component_p1.isActive (exampleComponent_p1\<lparr> component_p1.isActive := False \<rparr>)
   \<and> snd (handlePresenceEvent_p1 True (heartbeatEvent ''bob'' ''active'' False 2000)
          (exampleComponent_p1\<lparr> component_p1.isActive := False \<rparr>)) = [JoinToast ''bob'']"
  by (simp add: exampleComponent_p1_def heartbeatEvent_def handlePresenceEvent_p1_def
        alice_p1_def newUser_p1_def setting_def exampleSettings_def)

text \<open>
  Claim C7, amended. In the first component of part_000 (\<^verbatim>\<open>handlePresenceEvent\<close>, lines
  214-284) no toast is dispatched unless the component is active and the tab is visible;
  in part_001 no toast is dispatched unless the tab is visible
  (the \<^verbatim>\<open>isActive\<close> flag is not consulted). In both, a toast suppressed by the closed
  gate is dropped and not queued: the handler's effect on the component does not depend
  on the gate, so delivering events while the tab is hidden and then further events
  with the gate open gives the same component and the same toasts as the further events
  give after the first ones were delivered with the tab visible; nothing is emitted for
  the hidden period, neither then nor later. The same holds in the first component of
  part_000 when the gate
  is closed by \<^verbatim>\<open>isActive = false\<close> and opened by setting the flag.
\<close>

theorem intents_gated_and_dropped:
  "(\<not> (component_p0a.isActive st0 \<and> visible) \<longrightarrow>
        snd (handlePresenceEvent_p0a visible p st0) = [])
   \<and> (\<not> visible \<longrightarrow> snd (handlePresenceEvent_p1 visible p st1) = [])
   \<and> ((\<forall>e \<in> set closed. \<not> fst e) \<longrightarrow>
        deliver_p0a (closed @ opened) st0
          = deliver_p0a opened (fst (deliver_p0a (map (\<lambda>e. (True, snd e)) closed) st0)))
   \<and> ((\<forall>e \<in> set closed. \<not> fst e) \<longrightarrow>
        deliver_p1 (closed @ opened) st1
          = deliver_p1 opened (fst (deliver_p1 (map (\<lambda>e. (True, snd e)) closed) st1)))
   \<and> (\<not> component_p0a.isActive st0 \<longrightarrow>
        snd (deliver_p0a closed st0) = []
        \<and> deliver_p0a opened ((fst (deliver_p0a closed st0))\<lparr> component_p0a.isActive := True \<rparr>)
          = deliver_p0a opened
              (fst (deliver_p0a closed (st0\<lparr> component_p0a.isActive := True \<rparr>))))"
  by (simp add: no_toast_when_closed_p0a no_toast_when_hidden_p1 deliver_p0a_append
        deliver_p1_append deliver_p0a_hidden deliver_p1_hidden deliver_p0a_shown
        deliver_p1_shown deliver_p0a_idle deliver_p0a_isActive)

theorem intents_gated_and_dropped_witness:
  "snd (deliver_p0a ([(False, heartbeatEvent ''bob'' ''active'' False 2000),
                        (False, heartbeatEvent ''bob'' ''active'' True 3000)]
                       @ [(True, heartbeatEvent ''bob'' ''active'' True 4000)])
           exampleComponent_p0a) = []
   \<and> snd (deliver_p1 ([(False, heartbeatEvent ''bob'' ''active'' False 2000),
                       (False, heartbeatEvent ''bob'' ''active'' True 3000)]
                      @ [(True, heartbeatEvent ''bob'' ''active'' True 4000)])
           exampleComponent_p1) = []
   \<and> snd (handlePresenceEvent_p0a True (heartbeatEvent ''bob'' ''active'' False 2000)
          (exampleComponent_p0a\<lparr> component_p0a.isActive := False \<rparr>)) = []
   \<and> snd (handlePresenceEvent_p0a True (heartbeatEvent ''bob'' ''active'' False 2000)
          exampleComponent_p0a) = [JoinToast ''bob'']"
proof -
  let ?closed = "[(False, heartbeatEvent ''bob'' ''active'' False 2000),
                  (False, heartbeatEvent ''bob'' ''active'' True 3000)]"
  let ?opened = "[(True, heartbeatEvent ''bob'' ''active'' True 4000)]"
  have h: "\<forall>e \<in> set ?closed. \<not> fst e" by simp
  have idle: "\<not> (component_p0a.isActive (exampleComponent_p0a\<lparr> component_p0a.isActive := False \<rparr>)
                  \<and> True)"
    by simp
  note t = intents_gated_and_dropped
      [of exampleComponent_p0a True "heartbeatEvent ''bob'' ''active'' False 2000"
          exampleComponent_p1 ?closed ?opened]
  note t' = intents_gated_and_dropped
      [of "exampleComponent_p0a\<lparr> component_p0a.isActive := False \<rparr>" True
          "heartbeatEvent ''bob'' ''active'' False 2000" exampleComponent_p1 ?closed ?opened]
  have a: "deliver_p0a (?closed @ ?opened) exampleComponent_p0a
      = deliver_p0a ?opened
          (fst (deliver_p0a (map (\<lambda>e. (True, snd e)) ?closed) exampleComponent_p0a))"
    using t h by blast
  have b: "deliver_p1 (?closed @ ?opened) exampleComponent_p1
      = deliver_p1 ?opened
          (fst (deliver_p1 (map (\<lambda>e. (True, snd e)) ?closed) exampleComponent_p1))"
    using t h by blast
  have c: "snd (handlePresenceEvent_p0a True (heartbeatEvent ''bob'' ''active'' False 2000)
          (exampleComponent_p0a\<lparr> component_p0a.isActive := False \<rparr>)) = []"
    using t' idle by blast
  have a': "snd (deliver_p0a ?opened
          (fst (deliver_p0a (map (\<lambda>e. (True, snd e)) ?closed) exampleComponent_p0a))) = []"
    by (simp add: exampleComponent_p0a_def heartbeatEvent_def handlePresenceEvent_p0a_def
          alice_p0a_def newUser_p0a_def replaceAt_def or_false_def Let_def split_beta
          setting_def exampleSettings_def)
  have b': "snd (deliver_p1 ?opened
          (fst (deliver_p1 (map (\<lambda>e. (True, snd e)) ?closed) exampleComponent_p1))) = []"
    by (simp add: exampleComponent_p1_def heartbeatEvent_def handlePresenceEvent_p1_def
          alice_p1_def newUser_p1_def replaceAt_def or_false_def Let_def split_beta
          setting_def exampleSettings_def)
  have d: "snd (handlePresenceEvent_p0a True (heartbeatEvent ''bob'' ''active'' False 2000)
          exampleComponent_p0a) = [JoinToast ''bob'']"
    by (simp add: exampleComponent_p0a_def heartbeatEvent_def handlePresenceEvent_p0a_def
          alice_p0a_def newUser_p0a_def setting_def exampleSettings_def)
  from a a' b b' c d show ?thesis by (simp only: simp_thms)
qed

subsection \<open>Display order (part_000 second component, part_001)\<close>

text \<open>
  Claim C8, as stated, fails for the display projection of part_001: its
  \<^verbatim>\<open>displayedUsers\<close> maps the listed users in list order and sorts nothing. The listed
  users B (idle, 95), C (editing, 50), D (idle, 99) are displayed as B, C, D, the
  editing user in the middle.
\<close>

theorem unsorted_display_counterexample:
  "map user_p1.userId (displayedUsers_p1 exampleHost
      (exampleComponent_p1\<lparr> component_p1.visibleUsers :=
          [actor_p1 ''B'' False 95, actor_p1 ''C'' True 50, actor_p1 ''D'' False 99] \<rparr>))
     = [''B'', ''C'', ''D'']
   \<and> map displayed_p1.isEditing (displayedUsers_p1 exampleHost
      (exampleComponent_p1\<lparr> component_p1.visibleUsers :=
          [actor_p1 ''B'' False 95, actor_p1 ''C'' True 50, actor_p1 ''D'' False 99] \<rparr>))
     = [False, True, False]"
  by (simp add: displayedUsers_p1_def displayUser_p1_def exampleHost_def actor_p1_def Let_def
        user_p1.defs displayed_p1.defs)

text \<open>
  Claim C8, amended. In the second component of part_000, \<^verbatim>\<open>updateVisibleUsers\<close> orders
  the merged users so that every editing user precedes every non-editing user, within
  each group the timestamps descend, and users equal in both keep the order in which
  they were merged; the result is a permutation of the merged users, and
  \<^verbatim>\<open>displayedUsers\<close> shows it whole on a mobile device and its first five otherwise.
  B (idle, 95), C (editing, 50), D (idle, 99) are ordered C, D, B. In part_001,
  \<^verbatim>\<open>displayedUsers\<close> performs no ordering: it shows the listed users in list order,
  all of them on a narrow viewport and the first five otherwise, with \<^verbatim>\<open>isEditing\<close> set
  to the user's draft flag.
\<close>

theorem display_order:
  "(let ys = array_sort compareUsers_p0b xs in
      mset ys = mset xs
      \<and> (\<forall>i j. i < j \<and> j < length ys \<longrightarrow>
            (visible_p0b.isEditing (ys ! j) \<longrightarrow> visible_p0b.isEditing (ys ! i))
            \<and> (visible_p0b.isEditing (ys ! i) = visible_p0b.isEditing (ys ! j)
                 \<longrightarrow> visible_p0b.timestamp (ys ! j) \<le> visible_p0b.timestamp (ys ! i)))
      \<and> (\<forall>e t. filter (\<lambda>y. visible_p0b.isEditing y = e \<and> visible_p0b.timestamp y = t) ys
                 = filter (\<lambda>y. visible_p0b.isEditing y = e \<and> visible_p0b.timestamp y = t) xs))
   \<and> component_p0b.visibleUsers (updateVisibleUsers_p0b now st)
       = array_sort compareUsers_p0b (mergedUsers_p0b now st)
   \<and> displayedUsers_p0b (updateVisibleUsers_p0b now st)
       = (if component_p0b.isMobile st
          then array_sort compareUsers_p0b (mergedUsers_p0b now st)
          else take 5 (array_sort compareUsers_p0b (mergedUsers_p0b now st)))
   \<and> map user_p1.userId (displayedUsers_p1 h st1)
       = (if narrowViewport h then map user_p1.userId (component_p1.visibleUsers st1)
          else take 5 (map user_p1.userId (component_p1.visibleUsers st1)))
   \<and> map displayed_p1.isEditing (displayedUsers_p1 h st1)
       = (if narrowViewport h then map user_p1.hasDraft (component_p1.visibleUsers st1)
          else take 5 (map user_p1.hasDraft (component_p1.visibleUsers st1)))"
proof -
  let ?ys = "array_sort compareUsers_p0b xs"
  have perm: "mset ?ys = mset xs" by (rule mset_array_sort)
  have ord: "(visible_p0b.isEditing (?ys ! j) \<longrightarrow> visible_p0b.isEditing (?ys ! i))
            \<and> (visible_p0b.isEditing (?ys ! i) = visible_p0b.isEditing (?ys ! j)
                 \<longrightarrow> visible_p0b.timestamp (?ys ! j) \<le> visible_p0b.timestamp (?ys ! i))"
    if "i < j" "j < length ?ys" for i j
  proof -
    from sorted_compareUsers_p0b [of xs] that
    have "compareUsers_p0b (?ys ! i) (?ys ! j) \<le> 0"
      by (simp add: sorted_wrt_iff_nth_less)
    then show ?thesis by (auto simp: compareUsers_p0b_le)
  qed
  have stable: "filter (\<lambda>y. visible_p0b.isEditing y = e \<and> visible_p0b.timestamp y = t) ?ys
                 = filter (\<lambda>y. visible_p0b.isEditing y = e \<and> visible_p0b.timestamp y = t) xs"
    for e t
    by (rule filter_array_sort_stable) (simp add: compareUsers_p0b_def)
  have upd: "component_p0b.visibleUsers (updateVisibleUsers_p0b now st)
       = array_sort compareUsers_p0b (mergedUsers_p0b now st)"
    by (simp add: updateVisibleUsers_p0b_def)
  have disp: "displayedUsers_p0b (updateVisibleUsers_p0b now st)
       = (if component_p0b.isMobile st
          then array_sort compareUsers_p0b (mergedUsers_p0b now st)
          else take 5 (array_sort compareUsers_p0b (mergedUsers_p0b now st)))"
    by (simp add: displayedUsers_p0b_def updateVisibleUsers_p0b_def)
  have uid: "user_p1.userId (displayUser_p1 h st1 u) = user_p1.userId u"
    and ed: "displayed_p1.isEditing (displayUser_p1 h st1 u) = user_p1.hasDraft u" for u
    by (simp_all add: displayUser_p1_def Let_def user_p1.defs displayed_p1.defs)
  have p1a: "map user_p1.userId (displayedUsers_p1 h st1)
       = (if narrowViewport h then map user_p1.userId (component_p1.visibleUsers st1)
          else take 5 (map user_p1.userId (component_p1.visibleUsers st1)))"
    by (simp add: displayedUsers_p1_def Let_def take_map o_def uid)
  have p1b: "map displayed_p1.isEditing (displayedUsers_p1 h st1)
       = (if narrowViewport h then map user_p1.hasDraft (component_p1.visibleUsers st1)
          else take 5 (map user_p1.hasDraft (component_p1.visibleUsers st1)))"
    by (simp add: displayedUsers_p1_def Let_def take_map o_def ed)
  from perm ord stable upd disp p1a p1b show ?thesis
    unfolding Let_def by blast
qed

theorem display_order_witness:
  "array_sort compareUsers_p0b
      [actor_p0b ''B'' False 95, actor_p0b ''C'' True 50, actor_p0b ''D'' False 99]
     = [actor_p0b ''C'' True 50, actor_p0b ''D'' False 99, actor_p0b ''B'' False 95]
   \<and> visible_p0b.isEditing ([actor_p0b ''C'' True 50, actor_p0b ''D'' False 99,
         actor_p0b ''B'' False 95] ! 0)
   \<and> visible_p0b.timestamp ([actor_p0b ''C'' True 50, actor_p0b ''D'' False 99,
         actor_p0b ''B'' False 95] ! 2)
       \<le> visible_p0b.timestamp ([actor_p0b ''C'' True 50, actor_p0b ''D'' False 99,
         actor_p0b ''B'' False 95] ! 1)
   \<and> map visible_p0b.userId
        (component_p0b.visibleUsers (updateVisibleUsers_p0b 1000 exampleComponent_p0b))
       = [''alice'', ''bob'']"
proof -
  let ?xs = "[actor_p0b ''B'' False 95, actor_p0b ''C'' True 50, actor_p0b ''D'' False 99]"
  let ?ys = "[actor_p0b ''C'' True 50, actor_p0b ''D'' False 99, actor_p0b ''B'' False 95]"
  have s: "array_sort compareUsers_p0b ?xs = ?ys"
    by (simp add: compareUsers_p0b_def actor_p0b_def)
  note t = display_order [of ?xs 1000 exampleComponent_p0b exampleHost exampleComponent_p1]
  from t have ord: "\<forall>i j. i < j \<and> j < length ?ys \<longrightarrow>
            (visible_p0b.isEditing (?ys ! j) \<longrightarrow> visible_p0b.isEditing (?ys ! i))
            \<and> (visible_p0b.isEditing (?ys ! i) = visible_p0b.isEditing (?ys ! j)
                 \<longrightarrow> visible_p0b.timestamp (?ys ! j) \<le> visible_p0b.timestamp (?ys ! i))"
    unfolding s Let_def by blast
  have e: "visible_p0b.isEditing (?ys ! 0)"
    and same: "visible_p0b.isEditing (?ys ! 1) = visible_p0b.isEditing (?ys ! 2)"
    by (simp_all add: actor_p0b_def)
  from ord [rule_format, of 1 2] same
  have le: "visible_p0b.timestamp (?ys ! 2) \<le> visible_p0b.timestamp (?ys ! 1)"
    by simp
  from t have "component_p0b.visibleUsers (updateVisibleUsers_p0b 1000 exampleComponent_p0b)
       = array_sort compareUsers_p0b (mergedUsers_p0b 1000 exampleComponent_p0b)"
    by blast
  then have v: "map visible_p0b.userId
        (component_p0b.visibleUsers (updateVisibleUsers_p0b 1000 exampleComponent_p0b))
       = [''alice'', ''bob'']"
    by (simp add: mergedUsers_p0b_def exampleComponent_p0b_def session_p0b_def
          mergeStep_p0b_def firstSession_p0b_def mergeSession_p0b_def compareUsers_p0b_def
          Let_def)
  from s e le v show ?thesis by blast
qed

subsection \<open>The expiration sweep at the boundary (part_000, part_002)\<close>

text \<open>
  Claim C9. \<^verbatim>\<open>filterExpiredUsers\<close> keeps a listed user exactly when the age of its
  \<^verbatim>\<open>lastSeen\<close> is strictly below the window, so a user whose age equals the window is
  removed; and sweeping twice at the same clock reading gives the component that
  sweeping once gives. Both hold for the first component of part_000 (window
  \<^verbatim>\<open>presenceExpirationMs\<close>) and for
  part_002 (window \<^verbatim>\<open>PRESENCE_EXPIRATION_MS\<close>).
\<close>

theorem sweep_boundary_idempotent:
  "(\<forall>u \<in> set (component_p0a.visibleUsers st).
       now - user_p0a.lastSeen u = component_p0a.presenceExpirationMs st \<longrightarrow>
       u \<notin> set (component_p0a.visibleUsers (filterExpiredUsers_p0a now st)))
   \<and> (\<forall>u \<in> set (component_p0a.visibleUsers st).
       u \<in> set (component_p0a.visibleUsers (filterExpiredUsers_p0a now st)) \<longleftrightarrow>
       now - user_p0a.lastSeen u < component_p0a.presenceExpirationMs st)
   \<and> filterExpiredUsers_p0a now (filterExpiredUsers_p0a now st) = filterExpiredUsers_p0a now st
   \<and> (\<forall>u \<in> set (component_p2.visibleUsers st2).
       now - user_p2.lastSeen u = PRESENCE_EXPIRATION_MS \<longrightarrow>
       u \<notin> set (component_p2.visibleUsers (filterExpiredUsers_p2 now st2)))
   \<and> (\<forall>u \<in> set (component_p2.visibleUsers st2).
       u \<in> set (component_p2.visibleUsers (filterExpiredUsers_p2 now st2)) \<longleftrightarrow>
       now - user_p2.lastSeen u < PRESENCE_EXPIRATION_MS)
   \<and> filterExpiredUsers_p2 now (filterExpiredUsers_p2 now st2) = filterExpiredUsers_p2 now st2"
proof -
  have idem0: "filterExpiredUsers_p0a now (filterExpiredUsers_p0a now st)
                 = filterExpiredUsers_p0a now st"
    by (simp add: filterExpiredUsers_p0a_def)
  have idem2: "filterExpiredUsers_p2 now (filterExpiredUsers_p2 now st2)
                 = filterExpiredUsers_p2 now st2"
    by (simp add: filterExpiredUsers_p2_def)
  have mem0: "u \<in> set (component_p0a.visibleUsers (filterExpiredUsers_p0a now st)) \<longleftrightarrow>
      u \<in> set (component_p0a.visibleUsers st)
      \<and> now - user_p0a.lastSeen u < component_p0a.presenceExpirationMs st" for u
    by (simp add: filterExpiredUsers_p0a_def retained_p0a_def)
  have mem2: "u \<in> set (component_p2.visibleUsers (filterExpiredUsers_p2 now st2)) \<longleftrightarrow>
      u \<in> set (component_p2.visibleUsers st2)
      \<and> now - user_p2.lastSeen u < PRESENCE_EXPIRATION_MS" for u
    by (simp add: filterExpiredUsers_p2_def retained_p2_def)
  show ?thesis
    unfolding idem0 idem2 mem0 mem2 by simp
qed

theorem sweep_boundary_idempotent_witness:
  "alice_p0a \<in> set (component_p0a.visibleUsers exampleComponent_p0a)
   \<and> 601000 - user_p0a.lastSeen alice_p0a = component_p0a.presenceExpirationMs exampleComponent_p0a
   \<and> alice_p0a \<notin> set (component_p0a.visibleUsers (filterExpiredUsers_p0a 601000 exampleComponent_p0a))
   \<and> alice_p0a \<in> set (component_p0a.visibleUsers (filterExpiredUsers_p0a 600999 exampleComponent_p0a))
   \<and> alice_p2 \<in> set (component_p2.visibleUsers exampleComponent_p2)
   \<and> 601000 - user_p2.lastSeen alice_p2 = PRESENCE_EXPIRATION_MS
   \<and> alice_p2 \<notin> set (component_p2.visibleUsers (filterExpiredUsers_p2 601000 exampleComponent_p2))
   \<and> alice_p2 \<in> set (component_p2.visibleUsers (filterExpiredUsers_p2 600999 exampleComponent_p2))"
proof -
  have a: "alice_p0a \<in> set (component_p0a.visibleUsers exampleComponent_p0a)"
    and b: "601000 - user_p0a.lastSeen alice_p0a
              = component_p0a.presenceExpirationMs exampleComponent_p0a"
    and b': "600999 - user_p0a.lastSeen alice_p0a
              < component_p0a.presenceExpirationMs exampleComponent_p0a"
    and c: "alice_p2 \<in> set (component_p2.visibleUsers exampleComponent_p2)"
    and d: "601000 - user_p2.lastSeen alice_p2 = PRESENCE_EXPIRATION_MS"
    and d': "600999 - user_p2.lastSeen alice_p2 < PRESENCE_EXPIRATION_MS"
    by (simp_all add: exampleComponent_p0a_def alice_p0a_def exampleComponent_p2_def
          alice_p2_def PRESENCE_EXPIRATION_MS_def)
  from a b b' c d d'
    sweep_boundary_idempotent [of exampleComponent_p0a 601000 exampleComponent_p2]
    sweep_boundary_idempotent [of exampleComponent_p0a 600999 exampleComponent_p2]
  show ?thesis by blast
qed

subsection \<open>A departure from a user who is not listed (part_001)\<close>



end
